theory Spec2Isabelle
  imports Main
begin

section \<open>JavaScript values used by the deploy engine\<close>

text \<open>
  The engine (class \<open>DeployEngine\<close>) is untyped JavaScript.  A project or deployment id
  reaches it either as a number (a row of the database) or as a string (the HTTP routes
  pass \<open>req.params.projectId\<close> and \<open>req.params.deployId\<close> on unchanged), so an id is a
  value of either kind.
\<close>

datatype jsval = Num int | Str string

definition digit_char :: "nat \<Rightarrow> char" where
  "digit_char d = ''0123456789'' ! d"

function show_nat :: "nat \<Rightarrow> string" where
  "show_nat n = (if n < 10 then [digit_char n] else show_nat (n div 10) @ [digit_char (n mod 10)])"
  by pat_completeness auto
termination
  by (relation "measure id") auto

declare show_nat.simps [simp del]

definition show_int :: "int \<Rightarrow> string" where
  "show_int i = (if i < 0 then ''-'' @ show_nat (nat (- i)) else show_nat (nat i))"

text \<open>\<open>`${v}`\<close>: the string a template literal puts in place of a value.\<close>

fun to_string :: "jsval \<Rightarrow> string" where
  "to_string (Num n) = show_int n"
| "to_string (Str s) = s"

text \<open>The operator \<open>+\<close>: addition of two numbers, concatenation as soon as one side is a string.\<close>

fun js_add :: "jsval \<Rightarrow> jsval \<Rightarrow> jsval" where
  "js_add (Num a) (Num b) = Num (a + b)"
| "js_add a b = Str (to_string a @ to_string b)"

text \<open>\<open>x || d\<close> on a nullable column: \<open>null\<close>, the empty string and \<open>0\<close> are falsy.\<close>

definition str_or :: "string option \<Rightarrow> string \<Rightarrow> string" where
  "str_or x d = (case x of None \<Rightarrow> d | Some s \<Rightarrow> if s = [] then d else s)"

definition num_or :: "int option \<Rightarrow> int \<Rightarrow> int" where
  "num_or x d = (case x of None \<Rightarrow> d | Some n \<Rightarrow> if n = 0 then d else n)"

definition truthy :: "string option \<Rightarrow> bool" where
  "truthy x = (case x of None \<Rightarrow> False | Some s \<Rightarrow> s \<noteq> [])"

text \<open>\<open>String.prototype.trim\<close>, on the ASCII white space.\<close>

definition is_space :: "char \<Rightarrow> bool" where
  "is_space c = (c \<in> set [CHR 0x20, CHR 0x09, CHR 0x0A, CHR 0x0B, CHR 0x0C, CHR 0x0D])"

definition trim :: "string \<Rightarrow> string" where
  "trim s = rev (dropWhile is_space (rev (dropWhile is_space s)))"

section \<open>Errors and asynchronous results\<close>

datatype js_error = Error string | ReferenceError string

fun message :: "js_error \<Rightarrow> string" where
  "message (Error m) = m"
| "message (ReferenceError m) = m"

text \<open>An \<open>async\<close> function either resolves with a value or rejects with an error.\<close>

datatype 'a outcome = Returned 'a | Thrown js_error

section \<open>Data model (\<open>schema_v2.sql\<close>)\<close>

record project =
  p_id :: int
  p_user_id :: "int option"
  p_framework :: "string option"
  p_build_command :: "string option"
  p_start_command :: "string option"
  p_output_dir :: "string option"
  p_port :: "int option"

record project_file =
  f_project_id :: "int option"
  f_path :: string
  f_content :: "string option"

text \<open>Column \<open>status\<close>: \<open>'building'\<close>, \<open>'success'\<close>, \<open>'failed'\<close>, \<open>'running'\<close>, \<open>'stopped'\<close>.\<close>

datatype status = Building | Success | Failed | Running | Stopped

record deployment =
  d_id :: int
  d_project_id :: "int option"
  status :: status
  container_id :: "string option"
  container_name :: "string option"
  url :: "string option"
  commit_message :: "string option"
  build_duration :: "int option"

text \<open>Column \<open>log_type\<close>: \<open>'info'\<close>, \<open>'error'\<close>, \<open>'warning'\<close>.\<close>

datatype log_type = LogInfo | LogError | LogWarning

record build_log =
  l_deployment_id :: int
  l_type :: log_type
  l_message :: string

text \<open>A \<open>build-log\<close> event sent to a socket room.\<close>

record emitted =
  e_room :: string
  e_type :: log_type
  e_message :: string
  e_timestamp :: int

section \<open>The outside world\<close>

text \<open>
  Paths are kept as the expressions the code builds with \<open>path.join\<close> and
  \<open>path.dirname\<close>; their normalisation belongs to Node.
\<close>

datatype fpath = Dir string | Join fpath string | Dirname fpath

text \<open>
  Every call of \<open>execPromise\<close> carries the label of its call site, the command line, the
  working directory and the timeout (milliseconds) when the call gives one.
\<close>

datatype stage = Install | Build | ImageBuild | StopOld | RemoveOld | RunContainer
  | ProxyTest | ProxyReload | StopInstance | RemoveInstance

datatype event =
    Exec stage string "fpath option" "nat option"
  | Mkdir fpath
  | WriteFile fpath string
  | Unlink fpath
  | Symlink fpath fpath

text \<open>
  The environment decides what each external effect answers: \<open>respond env n ev\<close> is the
  answer to effect \<open>ev\<close> when \<open>n\<close> effects came before it, \<open>Inl\<close> an error message (non-zero
  exit, timeout, file-system error) and \<open>Inr\<close> the standard output.  \<open>clock env k\<close> is the
  \<open>k\<close>-th reading of the clock, \<open>pg_int env v\<close> the integer PostgreSQL reads from a query
  parameter bound to an integer column (\<open>Inl\<close> when it rejects the text).
\<close>

record env =
  respond :: "nat \<Rightarrow> event \<Rightarrow> string + string"
  clock :: "nat \<Rightarrow> int"
  pg_int :: "jsval \<Rightarrow> string + int"

text \<open>
  The state: the tables, the socket events sent, the external effects performed so far
  (in order) and the number of clock readings.  The database is taken to answer every
  query whose parameters it can read; the columns \<open>created_at\<close> and \<open>updated_at\<close> are left out.
\<close>

record world =
  projects :: "project list"
  files :: "project_file list"
  deployments :: "deployment list"
  build_logs :: "build_log list"
  emits :: "emitted list"
  trace :: "event list"
  clock_reads :: nat

type_synonym 'a js = "world \<Rightarrow> 'a outcome \<times> world"

definition ret :: "'a \<Rightarrow> 'a js" where
  "ret x s = (Returned x, s)"

definition throw :: "js_error \<Rightarrow> 'a js" where
  "throw e s = (Thrown e, s)"

text \<open>\<open>const x = await m; ...\<close>\<close>

definition bind :: "'a js \<Rightarrow> ('a \<Rightarrow> 'b js) \<Rightarrow> 'b js" where
  "bind m f s = (case m s of (Returned x, s') \<Rightarrow> f x s' | (Thrown e, s') \<Rightarrow> (Thrown e, s'))"

text \<open>\<open>try { m } catch (error) { h }\<close>\<close>

definition try_catch :: "'a js \<Rightarrow> (js_error \<Rightarrow> 'a js) \<Rightarrow> 'a js" where
  "try_catch m h s = (case m s of (Returned x, s') \<Rightarrow> (Returned x, s') | (Thrown e, s') \<Rightarrow> h e s')"

definition perform :: "env \<Rightarrow> event \<Rightarrow> string js" where
  "perform env ev s =
     (case respond env (length (trace s)) ev of
        Inl m \<Rightarrow> (Thrown (Error m), s\<lparr>trace := trace s @ [ev]\<rparr>)
      | Inr out \<Rightarrow> (Returned out, s\<lparr>trace := trace s @ [ev]\<rparr>))"

definition execPromise :: "env \<Rightarrow> stage \<Rightarrow> string \<Rightarrow> fpath option \<Rightarrow> nat option \<Rightarrow> string js" where
  "execPromise env st cmd cwd timeout = perform env (Exec st cmd cwd timeout)"

definition date_now :: "env \<Rightarrow> int js" where
  "date_now env s = (Returned (clock env (clock_reads s)), s\<lparr>clock_reads := Suc (clock_reads s)\<rparr>)"

definition sql_int :: "env \<Rightarrow> jsval \<Rightarrow> int js" where
  "sql_int env v = (case pg_int env v of Inl m \<Rightarrow> throw (Error m) | Inr n \<Rightarrow> ret n)"

definition modify :: "(world \<Rightarrow> world) \<Rightarrow> unit js" where
  "modify f s = (Returned (), f s)"

definition query :: "(world \<Rightarrow> 'a) \<Rightarrow> 'a js" where
  "query f s = (Returned (f s), s)"

section \<open>Log messages and templates\<close>

text \<open>Strings are the UTF-8 bytes of the source text.\<close>

definition msg_installing :: string where
  \<open>msg_installing = [CHR 0xF0, CHR 0x9F, CHR 0x93, CHR 0xA6] @ '' Instalando depend'' @ [CHR 0xC3, CHR 0xAA] @ ''ncias...''\<close>

definition msg_building :: string where
  \<open>msg_building = [CHR 0xF0, CHR 0x9F, CHR 0x94, CHR 0xA8] @ '' Construindo projeto...''\<close>

definition msg_build_error :: string where
  \<open>msg_build_error = [CHR 0xE2, CHR 0x9D, CHR 0x8C] @ '' Erro no build: ''\<close>

definition msg_installing_next :: string where
  \<open>msg_installing_next = [CHR 0xF0, CHR 0x9F, CHR 0x93, CHR 0xA6] @ '' Instalando depend'' @ [CHR 0xC3, CHR 0xAA] @ ''ncias Next.js...''\<close>

definition msg_building_next :: string where
  \<open>msg_building_next = [CHR 0xF0, CHR 0x9F, CHR 0x94, CHR 0xA8] @ '' Construindo Next.js...''\<close>

definition msg_creating_container :: string where
  \<open>msg_creating_container = [CHR 0xF0, CHR 0x9F, CHR 0x90, CHR 0xB3] @ '' Criando container Docker...''\<close>

definition msg_building_image :: string where
  \<open>msg_building_image = [CHR 0xF0, CHR 0x9F, CHR 0x94, CHR 0xA8] @ '' Construindo imagem Docker...''\<close>

definition msg_starting_container :: string where
  \<open>msg_starting_container = [CHR 0xF0, CHR 0x9F, CHR 0x9A, CHR 0x80] @ '' Iniciando container...''\<close>

definition msg_container_created :: string where
  \<open>msg_container_created = [CHR 0xE2, CHR 0x9C, CHR 0x85] @ '' Container criado: ''\<close>

definition msg_container_error :: string where
  \<open>msg_container_error = [CHR 0xE2, CHR 0x9D, CHR 0x8C] @ '' Erro ao criar container: ''\<close>

definition msg_not_found :: string where
  \<open>msg_not_found = ''Projeto n'' @ [CHR 0xC3, CHR 0xA3] @ ''o encontrado''\<close>

definition msg_starting_deploy :: string where
  \<open>msg_starting_deploy = [CHR 0xF0, CHR 0x9F, CHR 0x9A, CHR 0x80] @ '' Iniciando deploy...''\<close>

definition msg_no_files :: string where
  \<open>msg_no_files = ''Projeto n'' @ [CHR 0xC3, CHR 0xA3] @ ''o tem arquivos''\<close>

definition msg_saving_files :: string where
  \<open>msg_saving_files = [CHR 0xF0, CHR 0x9F, CHR 0x93, CHR 0x81] @ '' Salvando arquivos...''\<close>

definition msg_configuring_proxy :: string where
  \<open>msg_configuring_proxy = [CHR 0xE2, CHR 0x9A, CHR 0x99, CHR 0xEF, CHR 0xB8, CHR 0x8F] @ '' Configurando proxy reverso...''\<close>

definition msg_deploy_done :: string where
  \<open>msg_deploy_done = [CHR 0xE2, CHR 0x9C, CHR 0x85] @ '' Deploy conclu'' @ [CHR 0xC3, CHR 0xAD] @ ''do com sucesso em ''\<close>

definition msg_url :: string where
  \<open>msg_url = [CHR 0xF0, CHR 0x9F, CHR 0x8C, CHR 0x90] @ '' URL: ''\<close>

definition dockerfile_spa :: "project \<Rightarrow> string" where
  \<open>dockerfile_spa project =
     ''\<newline>'' @
     ''FROM node:18-alpine AS builder\<newline>'' @
     ''WORKDIR /app\<newline>'' @
     ''COPY package*.json ./\<newline>'' @
     ''RUN npm install\<newline>'' @
     ''COPY . .\<newline>'' @
     ''RUN '' @
     str_or (p_build_command project) ''npm run build'' @
     ''\<newline>'' @
     ''\<newline>'' @
     ''FROM nginx:alpine\<newline>'' @
     ''COPY --from=builder /app/'' @
     str_or (p_output_dir project) ''dist'' @
     '' /usr/share/nginx/html\<newline>'' @
     ''COPY nginx-spa.conf /etc/nginx/conf.d/default.conf\<newline>'' @
     ''EXPOSE 80\<newline>'' @
     ''CMD ["nginx", "-g", "daemon off;"]\<newline>'' @
     ''      ''\<close>

definition nginxSpaConfig :: string where
  \<open>nginxSpaConfig =
     ''\<newline>'' @
     ''server {\<newline>'' @
     ''    listen 80;\<newline>'' @
     ''    root /usr/share/nginx/html;\<newline>'' @
     ''    index index.html;\<newline>'' @
     ''    \<newline>'' @
     ''    location / {\<newline>'' @
     ''        try_files $uri $uri/ /index.html;\<newline>'' @
     ''    }\<newline>'' @
     ''    \<newline>'' @
     ''    gzip on;\<newline>'' @
     ''    gzip_types text/plain text/css application/json application/javascript text/xml application/xml;\<newline>'' @
     ''}\<newline>'' @
     ''      ''\<close>

definition dockerfile_next :: "project \<Rightarrow> string" where
  \<open>dockerfile_next project =
     ''\<newline>'' @
     ''FROM node:18-alpine\<newline>'' @
     ''WORKDIR /app\<newline>'' @
     ''COPY package*.json ./\<newline>'' @
     ''RUN npm install\<newline>'' @
     ''COPY . .\<newline>'' @
     ''RUN npm run build\<newline>'' @
     ''EXPOSE '' @
     show_int (num_or (p_port project) 3000) @
     ''\<newline>'' @
     ''CMD ["npm", "start"]\<newline>'' @
     ''      ''\<close>

definition dockerfile_node :: "project \<Rightarrow> string" where
  \<open>dockerfile_node project =
     ''\<newline>'' @
     ''FROM node:18-alpine\<newline>'' @
     ''WORKDIR /app\<newline>'' @
     ''COPY package*.json ./\<newline>'' @
     ''RUN npm install --production\<newline>'' @
     ''COPY . .\<newline>'' @
     ''EXPOSE '' @
     show_int (num_or (p_port project) 3000) @
     ''\<newline>'' @
     ''CMD ["'' @
     str_or (p_start_command project) ''node index.js'' @
     ''"]\<newline>'' @
     ''      ''\<close>

definition nginxConfig :: "string \<Rightarrow> jsval \<Rightarrow> string" where
  \<open>nginxConfig serverName hostPort =
     ''\<newline>'' @
     ''server {\<newline>'' @
     ''    listen 80;\<newline>'' @
     ''    server_name '' @
     serverName @
     '';\<newline>'' @
     ''\<newline>'' @
     ''    location / {\<newline>'' @
     ''        proxy_pass http://localhost:'' @
     to_string hostPort @
     '';\<newline>'' @
     ''        proxy_http_version 1.1;\<newline>'' @
     ''        proxy_set_header Upgrade $http_upgrade;\<newline>'' @
     ''        proxy_set_header Connection 'upgrade';\<newline>'' @
     ''        proxy_set_header Host $host;\<newline>'' @
     ''        proxy_cache_bypass $http_upgrade;\<newline>'' @
     ''        proxy_set_header X-Real-IP $remote_addr;\<newline>'' @
     ''        proxy_set_header X-Forwarded-For $proxy_add_x_forwarded_for;\<newline>'' @
     ''        proxy_set_header X-Forwarded-Proto $scheme;\<newline>'' @
     ''    }\<newline>'' @
     ''}\<newline>'' @
     ''    ''\<close>

section \<open>The deploy engine (\<open>class DeployEngine\<close>)\<close>

definition deploysDir :: string where
  "deploysDir = ''/var/criacode/deploys''"

definition nginxConfigDir :: string where
  "nginxConfigDir = ''/etc/nginx/sites-available''"

definition nginxEnabledDir :: string where
  "nginxEnabledDir = ''/etc/nginx/sites-enabled''"

definition createDeployDirectory :: "env \<Rightarrow> jsval \<Rightarrow> fpath js" where
  "createDeployDirectory env projectId =
     (let projectDir = Join (Dir deploysDir) (''project-'' @ to_string projectId)
      in bind (perform env (Mkdir projectDir)) (\<lambda>_. ret projectDir))"

text \<open>The loop \<open>for (const file of files)\<close> of \<open>saveProjectFiles\<close>.\<close>

fun write_files :: "env \<Rightarrow> fpath \<Rightarrow> project_file list \<Rightarrow> unit js" where
  "write_files env projectDir [] = ret ()"
| "write_files env projectDir (file # rest) =
     (let filePath = Join projectDir (f_path file); fileDir = Dirname filePath
      in bind (perform env (Mkdir fileDir)) (\<lambda>_.
         bind (perform env (WriteFile filePath (str_or (f_content file) ''''))) (\<lambda>_.
         write_files env projectDir rest)))"

definition saveProjectFiles :: "env \<Rightarrow> jsval \<Rightarrow> project_file list \<Rightarrow> fpath js" where
  "saveProjectFiles env projectId fs =
     bind (createDeployDirectory env projectId) (\<lambda>projectDir.
     bind (write_files env projectDir fs) (\<lambda>_.
     ret projectDir))"

definition addBuildLog :: "env \<Rightarrow> int \<Rightarrow> log_type \<Rightarrow> string \<Rightarrow> unit js" where
  "addBuildLog env deploymentId logType msg =
     bind (modify (\<lambda>s. s\<lparr>build_logs := build_logs s @
             [\<lparr>l_deployment_id = deploymentId, l_type = logType, l_message = msg\<rparr>]\<rparr>)) (\<lambda>_.
     bind (date_now env) (\<lambda>now.
     modify (\<lambda>s. s\<lparr>emits := emits s @
             [\<lparr>e_room = ''deployment-'' @ show_int deploymentId, e_type = logType,
               e_message = msg, e_timestamp = now\<rparr>]\<rparr>)))"

definition buildReactProject :: "env \<Rightarrow> fpath \<Rightarrow> int \<Rightarrow> project \<Rightarrow> bool js" where
  "buildReactProject env projectDir deploymentId project =
     try_catch
       (bind (addBuildLog env deploymentId LogInfo msg_installing) (\<lambda>_.
        bind (execPromise env Install ''npm install'' (Some projectDir) (Some 300000)) (\<lambda>installOut.
        bind (addBuildLog env deploymentId LogInfo installOut) (\<lambda>_.
        bind (addBuildLog env deploymentId LogInfo msg_building) (\<lambda>_.
        bind (execPromise env Build (str_or (p_build_command project) ''npm run build'')
                (Some projectDir) (Some 600000)) (\<lambda>buildOut.
        bind (addBuildLog env deploymentId LogInfo buildOut) (\<lambda>_.
        ret True)))))))
       (\<lambda>error.
        bind (addBuildLog env deploymentId LogError (msg_build_error @ message error)) (\<lambda>_.
        throw error))"

definition buildNextProject :: "env \<Rightarrow> fpath \<Rightarrow> int \<Rightarrow> project \<Rightarrow> bool js" where
  "buildNextProject env projectDir deploymentId project =
     try_catch
       (bind (addBuildLog env deploymentId LogInfo msg_installing_next) (\<lambda>_.
        bind (execPromise env Install ''npm install'' (Some projectDir) (Some 300000)) (\<lambda>installOut.
        bind (addBuildLog env deploymentId LogInfo installOut) (\<lambda>_.
        bind (addBuildLog env deploymentId LogInfo msg_building_next) (\<lambda>_.
        bind (execPromise env Build ''npm run build'' (Some projectDir) (Some 600000)) (\<lambda>buildOut.
        bind (addBuildLog env deploymentId LogInfo buildOut) (\<lambda>_.
        ret True)))))))
       (\<lambda>error.
        bind (addBuildLog env deploymentId LogError (msg_build_error @ message error)) (\<lambda>_.
        throw error))"

definition createDockerfile :: "env \<Rightarrow> fpath \<Rightarrow> project \<Rightarrow> unit js" where
  "createDockerfile env projectDir project =
     bind (if p_framework project = Some ''react'' \<or> p_framework project = Some ''html'' then
             bind (perform env (WriteFile (Join projectDir ''nginx-spa.conf'') nginxSpaConfig)) (\<lambda>_.
             ret (dockerfile_spa project))
           else if p_framework project = Some ''nextjs'' then ret (dockerfile_next project)
           else if p_framework project = Some ''node'' then ret (dockerfile_node project)
           else ret '''') (\<lambda>dockerfile.
     bind (perform env (WriteFile (Join projectDir ''Dockerfile'') dockerfile)) (\<lambda>_.
     ret ()))"

text \<open>The loop \<open>for (const deploy of oldDeployments)\<close> of \<open>createContainer\<close>.\<close>

fun stop_old :: "env \<Rightarrow> string option list \<Rightarrow> unit js" where
  "stop_old env [] = ret ()"
| "stop_old env (name # rest) =
     (case name of
        None \<Rightarrow> stop_old env rest
      | Some n \<Rightarrow>
          if n = [] then stop_old env rest
          else bind (execPromise env StopOld (''docker stop '' @ n) None None) (\<lambda>_.
               bind (execPromise env RemoveOld (''docker rm '' @ n) None None) (\<lambda>_.
               stop_old env rest)))"

text \<open>
  The block \<open>try { ... } catch (err) { console.log(..) }\<close> of \<open>createContainer\<close> that stops
  the containers of the project's other running deployments; a failure in it is swallowed.
\<close>

definition stop_previous :: "env \<Rightarrow> jsval \<Rightarrow> int \<Rightarrow> unit js" where
  "stop_previous env projectId deploymentId =
     try_catch
       (bind (sql_int env projectId) (\<lambda>p.
        bind (query (\<lambda>s. map container_name
                [d \<leftarrow> deployments s. d_project_id d = Some p \<and> status d = Running
                   \<and> d_id d \<noteq> deploymentId])) (\<lambda>oldDeployments.
        stop_old env oldDeployments)))
       (\<lambda>err. ret ())"

text \<open>The port of the host: \<open>const hostPort = 10000 + projectId\<close>.\<close>

definition hostPort_of :: "jsval \<Rightarrow> jsval" where
  "hostPort_of projectId = js_add (Num 10000) projectId"

definition createContainer ::
  "env \<Rightarrow> jsval \<Rightarrow> int \<Rightarrow> project \<Rightarrow> fpath \<Rightarrow> (string \<times> string \<times> jsval) js" where
  "createContainer env projectId deploymentId project projectDir =
     bind (date_now env) (\<lambda>now.
     let containerName = ''criacode-project-'' @ to_string projectId @ ''-'' @ show_int now;
         port = num_or (p_port project) 3000;
         hostPort = hostPort_of projectId
     in try_catch
       (bind (addBuildLog env deploymentId LogInfo msg_creating_container) (\<lambda>_.
        bind (createDockerfile env projectDir project) (\<lambda>_.
        bind (addBuildLog env deploymentId LogInfo msg_building_image) (\<lambda>_.
        let imageName = ''criacode-'' @ to_string projectId @ '':latest'' in
        bind (execPromise env ImageBuild (''docker build -t '' @ imageName @ '' .'')
                (Some projectDir) (Some 900000)) (\<lambda>_.
        bind (stop_previous env projectId deploymentId) (\<lambda>_.
        bind (addBuildLog env deploymentId LogInfo msg_starting_container) (\<lambda>_.
        bind (execPromise env RunContainer
                (''docker run -d --name '' @ containerName @ '' -p '' @ to_string hostPort @ '':''
                 @ show_int port @ '' --restart unless-stopped '' @ imageName) None None) (\<lambda>stdout.
        let containerId = trim stdout in
        bind (addBuildLog env deploymentId LogInfo (msg_container_created @ containerName)) (\<lambda>_.
        ret (containerId, containerName, hostPort))))))))))
       (\<lambda>error.
        bind (addBuildLog env deploymentId LogError (msg_container_error @ message error)) (\<lambda>_.
        throw error)))"

definition configureNginx :: "env \<Rightarrow> jsval \<Rightarrow> jsval \<Rightarrow> string option \<Rightarrow> string js" where
  "configureNginx env projectId hostPort domain =
     (let serverName = str_or domain (''project-'' @ to_string projectId @ ''.local'');
          configFile = ''criacode-project-'' @ to_string projectId
      in try_catch
        (let configPath = Join (Dir nginxConfigDir) configFile in
         bind (perform env (WriteFile configPath (nginxConfig serverName hostPort))) (\<lambda>_.
         let enabledPath = Join (Dir nginxEnabledDir) configFile in
         bind (try_catch (bind (perform env (Unlink enabledPath)) (\<lambda>_. ret ())) (\<lambda>err. ret ())) (\<lambda>_.
         bind (perform env (Symlink configPath enabledPath)) (\<lambda>_.
         bind (execPromise env ProxyTest ''nginx -t'' None None) (\<lambda>_.
         bind (execPromise env ProxyReload ''nginx -s reload'' None None) (\<lambda>_.
         ret serverName))))))
        (\<lambda>error. throw error))"

text \<open>
  \<open>INSERT INTO deployments ... RETURNING id\<close>: the column \<open>id\<close> is \<open>SERIAL PRIMARY KEY\<close>,
  so the new row gets an id that no row of the table holds; it is taken one above the
  largest id present.
\<close>

definition next_deployment_id :: "deployment list \<Rightarrow> int" where
  "next_deployment_id ds = foldr max (map d_id ds) 0 + 1"

definition insert_deployment :: "int \<Rightarrow> string \<Rightarrow> int js" where
  "insert_deployment p commitMessage s =
     (let i = next_deployment_id (deployments s)
      in (Returned i, s\<lparr>deployments := deployments s @
            [\<lparr>d_id = i, d_project_id = Some p, status = Building, container_id = None,
              container_name = None, url = None, commit_message = Some commitMessage,
              build_duration = None\<rparr>]\<rparr>))"

text \<open>
  \<open>UPDATE deployments SET status = 'running', container_id = .., container_name = .., url = ..,
  build_duration = .. WHERE id = ..\<close>
\<close>

definition set_running :: "int \<Rightarrow> string \<Rightarrow> string \<Rightarrow> string \<Rightarrow> int \<Rightarrow> deployment \<Rightarrow> deployment" where
  "set_running deploymentId containerId containerName u buildDuration d =
     (if d_id d = deploymentId
      then d\<lparr>status := Running, container_id := Some containerId,
             container_name := Some containerName, url := Some u,
             build_duration := Some buildDuration\<rparr>
      else d)"

text \<open>
  \<open>UPDATE deployments SET status = 'stopped' WHERE project_id = .. AND id != .. AND status = 'running'\<close>
\<close>

definition set_superseded :: "int \<Rightarrow> int \<Rightarrow> deployment \<Rightarrow> deployment" where
  "set_superseded p deploymentId d =
     (if d_project_id d = Some p \<and> d_id d \<noteq> deploymentId \<and> status d = Running
      then d\<lparr>status := Stopped\<rparr> else d)"

text \<open>\<open>UPDATE deployments SET status = .. WHERE id = ..\<close>\<close>

definition set_status :: "status \<Rightarrow> int \<Rightarrow> deployment \<Rightarrow> deployment" where
  "set_status st i d = (if d_id d = i then d\<lparr>status := st\<rparr> else d)"

record deploy_result =
  success :: bool
  r_deploymentId :: "int option"
  r_url :: "string option"
  r_buildDuration :: "int option"
  r_error :: "string option"

text \<open>
  The expression \<open>deployment?.id\<close> in the \<open>catch\<close> block of \<open>deploy\<close>.  \<open>deployment\<close> is
  declared by \<open>const\<close> inside the \<open>try\<close> block, so the name is not in scope in the \<open>catch\<close>
  block (and the module has no other binding of it): reading it raises a \<open>ReferenceError\<close>,
  which optional chaining does not prevent.
\<close>

definition deployment_id_in_catch :: "int option js" where
  "deployment_id_in_catch = throw (ReferenceError ''deployment is not defined'')"

text \<open>
  The \<open>catch\<close> block of \<open>deploy\<close>: after \<open>console.error\<close> it evaluates the parameter list
  \<open>['failed', deployment?.id]\<close>, sends the \<open>UPDATE\<close> and returns the failure record.
\<close>

definition deploy_catch :: "js_error \<Rightarrow> deploy_result js" where
  "deploy_catch error =
     bind deployment_id_in_catch (\<lambda>deployment_id.
     bind (modify (\<lambda>s. s\<lparr>deployments :=
             map (case deployment_id of None \<Rightarrow> (\<lambda>d. d) | Some i \<Rightarrow> set_status Failed i)
               (deployments s)\<rparr>)) (\<lambda>_.
     ret \<lparr>success = False, r_deploymentId = None, r_url = None, r_buildDuration = None,
          r_error = Some (message error)\<rparr>))"

text \<open>The build step of \<open>deploy\<close>: the dispatch on the framework (\<open>// Build baseado no framework\<close>).\<close>

definition build_project :: "env \<Rightarrow> fpath \<Rightarrow> int \<Rightarrow> project \<Rightarrow> unit js" where
  "build_project env projectDir deploymentId project =
     (if p_framework project = Some ''react'' \<or> p_framework project = Some ''html'' then
        bind (buildReactProject env projectDir deploymentId project) (\<lambda>_. ret ())
      else if p_framework project = Some ''nextjs'' then
        bind (buildNextProject env projectDir deploymentId project) (\<lambda>_. ret ())
      else ret ())"

text \<open>
  The \<open>try\<close> block of \<open>deploy\<close> from the first log line on, that is once the project row
  \<open>project\<close> (id \<open>p\<close>) is loaded and the Deployment row \<open>deploymentId\<close> is created.  The
  queries of \<open>deploy\<close> all bind the same \<open>projectId\<close>, which the database reads as the
  same integer \<open>p\<close> each time.
\<close>

definition deploy_steps ::
  "env \<Rightarrow> jsval \<Rightarrow> int \<Rightarrow> project \<Rightarrow> int \<Rightarrow> int \<Rightarrow> deploy_result js" where
  "deploy_steps env projectId p project deploymentId startTime =
        bind (addBuildLog env deploymentId LogInfo msg_starting_deploy) (\<lambda>_.
        bind (query (\<lambda>s. [f \<leftarrow> files s. f_project_id f = Some p])) (\<lambda>fs.
        if length fs = 0 then throw (Error msg_no_files) else
        bind (addBuildLog env deploymentId LogInfo msg_saving_files) (\<lambda>_.
        bind (saveProjectFiles env projectId fs) (\<lambda>projectDir.
        bind (build_project env projectDir deploymentId project) (\<lambda>_.
        bind (createContainer env projectId deploymentId project projectDir)
          (\<lambda>(containerId, containerName, hostPort).
        bind (addBuildLog env deploymentId LogInfo msg_configuring_proxy) (\<lambda>_.
        bind (configureNginx env projectId hostPort None) (\<lambda>serverName.
        bind (date_now env) (\<lambda>endTime.
        let buildDuration = (endTime - startTime) div 1000;
            u = ''http://'' @ serverName
        in
        bind (modify (\<lambda>s. s\<lparr>deployments :=
                map (set_running deploymentId containerId containerName u buildDuration)
                  (deployments s)\<rparr>)) (\<lambda>_.
        bind (modify (\<lambda>s. s\<lparr>deployments :=
                map (set_superseded p deploymentId) (deployments s)\<rparr>)) (\<lambda>_.
        bind (addBuildLog env deploymentId LogInfo
                (msg_deploy_done @ show_int buildDuration @ ''s!'')) (\<lambda>_.
        bind (addBuildLog env deploymentId LogInfo (msg_url @ u)) (\<lambda>_.
        ret \<lparr>success = True, r_deploymentId = Some deploymentId, r_url = Some u,
             r_buildDuration = Some buildDuration, r_error = None\<rparr>)))))))))))))"

definition deploy :: "env \<Rightarrow> jsval \<Rightarrow> int \<Rightarrow> string \<Rightarrow> deploy_result js" where
  "deploy env projectId userId commitMessage =
     bind (date_now env) (\<lambda>startTime.
     try_catch
       (bind (sql_int env projectId) (\<lambda>p.
        bind (query (\<lambda>s. find (\<lambda>r. p_id r = p \<and> p_user_id r = Some userId) (projects s))) (\<lambda>found.
        case found of
          None \<Rightarrow> throw (Error msg_not_found)
        | Some project \<Rightarrow>
        bind (insert_deployment p commitMessage) (\<lambda>deploymentId.
        deploy_steps env projectId p project deploymentId startTime))))
       deploy_catch)"

definition stopDeployment :: "env \<Rightarrow> jsval \<Rightarrow> bool js" where
  "stopDeployment env deploymentId =
     try_catch
       (bind (sql_int env deploymentId) (\<lambda>i.
        bind (query (\<lambda>s. find (\<lambda>d. d_id d = i) (deployments s))) (\<lambda>found.
        bind (case found of
                None \<Rightarrow> ret ()
              | Some deployment \<Rightarrow>
                  (case container_name deployment of
                     None \<Rightarrow> ret ()
                   | Some n \<Rightarrow>
                       if n = [] then ret ()
                       else bind (execPromise env StopInstance (''docker stop '' @ n) None None) (\<lambda>_.
                            bind (execPromise env RemoveInstance (''docker rm '' @ n) None None) (\<lambda>_.
                            modify (\<lambda>s. s\<lparr>deployments :=
                              map (set_status Stopped i) (deployments s)\<rparr>))))) (\<lambda>_.
        ret True))))
       (\<lambda>error. ret False)"

section \<open>Vocabulary of the properties\<close>

text \<open>The call site of an external command; \<open>None\<close> for a file-system operation.\<close>

fun stage_of :: "event \<Rightarrow> stage option" where
  "stage_of (Exec st _ _ _) = Some st"
| "stage_of _ = None"

text \<open>\<open>ext P xs ys\<close>: the list \<open>ys\<close> is \<open>xs\<close> followed by elements that satisfy \<open>P\<close>.\<close>

definition ext :: "('a \<Rightarrow> bool) \<Rightarrow> 'a list \<Rightarrow> 'a list \<Rightarrow> bool" where
  "ext P xs ys \<longleftrightarrow> (\<exists>es. ys = xs @ es \<and> (\<forall>e\<in>set es. P e))"

text \<open>
  \<open>quiet P L m\<close>: whatever its outcome, \<open>m\<close> only appends effects satisfying \<open>P\<close> to the trace
  and rows satisfying \<open>L\<close> to the log table, and leaves the other tables alone.
\<close>

definition quiet :: "(event \<Rightarrow> bool) \<Rightarrow> (build_log \<Rightarrow> bool) \<Rightarrow> 'a js \<Rightarrow> bool" where
  "quiet P L m \<longleftrightarrow>
     (\<forall>s. ext P (trace s) (trace (snd (m s))) \<and> ext L (build_logs s) (build_logs (snd (m s))) \<and>
          deployments (snd (m s)) = deployments s \<and> projects (snd (m s)) = projects s \<and>
          files (snd (m s)) = files s)"

text \<open>\<open>emits_only P m\<close>: whatever its outcome, \<open>m\<close> only appends effects satisfying \<open>P\<close> to the trace.\<close>

definition emits_only :: "(event \<Rightarrow> bool) \<Rightarrow> 'a js \<Rightarrow> bool" where
  "emits_only P m \<longleftrightarrow> (\<forall>s. ext P (trace s) (trace (snd (m s))))"

text \<open>
  \<open>build_failure env tr i detail\<close>: the \<open>i\<close>-th effect of the trace \<open>tr\<close> is the install or the
  build command, and it failed (non-zero exit or timeout) with the message \<open>detail\<close>.
\<close>

definition build_failure :: "env \<Rightarrow> event list \<Rightarrow> nat \<Rightarrow> string \<Rightarrow> bool" where
  "build_failure env tr i detail \<longleftrightarrow>
     i < length tr \<and> (stage_of (tr ! i) = Some Install \<or> stage_of (tr ! i) = Some Build) \<and>
     respond env i (tr ! i) = Inl detail"

text \<open>
  \<open>fails_last env Q m\<close>: \<open>m\<close> only appends to the trace, and when one of the effects it appends
  is a failed install or build command, that effect is the last one and \<open>m\<close> rejects, with
  an error and in a state that satisfy \<open>Q\<close> for the failure message.
\<close>

definition fails_last :: "env \<Rightarrow> (string \<Rightarrow> js_error \<Rightarrow> world \<Rightarrow> bool) \<Rightarrow> 'a js \<Rightarrow> bool" where
  "fails_last env Q m \<longleftrightarrow>
     (\<forall>s. ext (\<lambda>_. True) (trace s) (trace (snd (m s))) \<and>
          (\<forall>i detail. length (trace s) \<le> i \<and> build_failure env (trace (snd (m s))) i detail \<longrightarrow>
               Suc i = length (trace (snd (m s))) \<and>
               (\<exists>e. fst (m s) = Thrown e \<and> Q detail e (snd (m s)))))"

section \<open>Example scenarios\<close>

text \<open>An environment in which every command and file operation succeeds.\<close>

definition pg_example :: "jsval \<Rightarrow> string + int" where
  "pg_example v =
     (case v of Num n \<Rightarrow> Inr n
      | Str s \<Rightarrow> if s = ''7'' then Inr 7 else Inl ''invalid input syntax for type integer'')"

definition env_ok :: env where
  "env_ok = \<lparr>respond = (\<lambda>n ev. Inr ''8d2a41c0''), clock = (\<lambda>k. 1000 * int k), pg_int = pg_example\<rparr>"

text \<open>Environments in which one command fails.\<close>

definition env_install_fails :: env where
  "env_install_fails =
     \<lparr>respond = (\<lambda>n ev. if stage_of ev = Some Install then Inl ''Command failed: npm install''
                         else Inr ''8d2a41c0''),
      clock = (\<lambda>k. 1000 * int k), pg_int = pg_example\<rparr>"

definition env_syntax_fails :: env where
  "env_syntax_fails =
     \<lparr>respond = (\<lambda>n ev. if stage_of ev = Some ProxyTest then Inl ''Command failed: nginx -t''
                         else Inr ''8d2a41c0''),
      clock = (\<lambda>k. 1000 * int k), pg_int = pg_example\<rparr>"

definition env_stop_fails :: env where
  "env_stop_fails =
     \<lparr>respond = (\<lambda>n ev. if stage_of ev = Some StopInstance then Inl ''Command failed: docker stop''
                         else Inr ''8d2a41c0''),
      clock = (\<lambda>k. 1000 * int k), pg_int = pg_example\<rparr>"

text \<open>Project 7 of user 1 with the files \<open>index.html\<close> and \<open>app.js\<close>, never deployed.\<close>

definition project7 :: "string \<Rightarrow> project" where
  "project7 fw =
     \<lparr>p_id = 7, p_user_id = Some 1, p_framework = Some fw, p_build_command = Some ''npm run build'',
      p_start_command = Some ''npm start'', p_output_dir = Some ''dist'', p_port = Some 3000\<rparr>"

definition world7 :: "string \<Rightarrow> world" where
  "world7 fw =
     \<lparr>projects = [project7 fw],
      files = [\<lparr>f_project_id = Some 7, f_path = ''index.html'', f_content = Some ''<html></html>''\<rparr>,
               \<lparr>f_project_id = Some 7, f_path = ''app.js'', f_content = None\<rparr>],
      deployments = [], build_logs = [], emits = [], trace = [], clock_reads = 0\<rparr>"

text \<open>The same project without files.\<close>

definition world7_empty :: world where
  "world7_empty = (world7 ''react'')\<lparr>files := []\<rparr>"

text \<open>
  The same project with an earlier deployment running, beside a running deployment of
  project 8 and a deployment that never got an instance.
\<close>

definition old_deployments :: "deployment list" where
  "old_deployments =
     [\<lparr>d_id = 1, d_project_id = Some 7, status = Running, container_id = Some ''51fe01'',
       container_name = Some ''criacode-project-7-1700000000000'',
       url = Some ''http://project-7.local'', commit_message = Some ''Deploy manual'',
       build_duration = Some 12\<rparr>,
      \<lparr>d_id = 2, d_project_id = Some 8, status = Running, container_id = Some ''77ab02'',
       container_name = Some ''criacode-project-8-1700000000001'',
       url = Some ''http://project-8.local'', commit_message = Some ''Deploy manual'',
       build_duration = Some 9\<rparr>,
      \<lparr>d_id = 3, d_project_id = Some 7, status = Building, container_id = None,
       container_name = None, url = None, commit_message = Some ''Deploy manual'',
       build_duration = None\<rparr>]"

definition world7_redeploy :: world where
  "world7_redeploy = (world7 ''react'')\<lparr>deployments := old_deployments\<rparr>"

section \<open>Auxiliary facts\<close>

subsection \<open>Sequencing and exception handling\<close>

lemma bind_Returned_iff:
  "bind m f s = (Returned y, s') \<longleftrightarrow> (\<exists>x s1. m s = (Returned x, s1) \<and> f x s1 = (Returned y, s'))"
  by (auto simp: bind_def split: prod.splits outcome.splits)

lemma bind_cases:
  "bind m f s = (r, s') \<longleftrightarrow>
     (\<exists>e. m s = (Thrown e, s') \<and> r = Thrown e) \<or> (\<exists>x s1. m s = (Returned x, s1) \<and> f x s1 = (r, s'))"
  by (auto simp: bind_def split: prod.splits outcome.splits)

lemma try_catch_cases:
  "try_catch m h s = (r, s') \<longleftrightarrow>
     (\<exists>x. m s = (Returned x, s') \<and> r = Returned x) \<or> (\<exists>e s1. m s = (Thrown e, s1) \<and> h e s1 = (r, s'))"
  by (auto simp: try_catch_def split: prod.splits outcome.splits)

subsection \<open>Appending to the trace and to the log\<close>

lemma ext_refl: "ext P xs xs"
  by (simp add: ext_def)

lemma ext_trans:
  assumes "ext P xs ys" and "ext P ys zs"
  shows "ext P xs zs"
proof -
  from assms obtain es fs where "ys = xs @ es" "\<forall>e\<in>set es. P e" "zs = ys @ fs" "\<forall>e\<in>set fs. P e"
    unfolding ext_def by blast
  then have "zs = xs @ (es @ fs) \<and> (\<forall>e\<in>set (es @ fs). P e)" by auto
  then show ?thesis unfolding ext_def by blast
qed

lemma ext_snoc: "P e \<Longrightarrow> ext P xs (xs @ [e])"
  by (simp add: ext_def)

lemma ext_mono: "ext P xs ys \<Longrightarrow> (\<And>e. P e \<Longrightarrow> Q e) \<Longrightarrow> ext Q xs ys"
  unfolding ext_def by blast

lemma ext_length: "ext P xs ys \<Longrightarrow> length xs \<le> length ys"
  unfolding ext_def by auto

lemma ext_nth_old: "ext P xs ys \<Longrightarrow> i < length xs \<Longrightarrow> ys ! i = xs ! i"
  unfolding ext_def by (auto simp: nth_append)

lemma ext_nth_new: "ext P xs ys \<Longrightarrow> length xs \<le> i \<Longrightarrow> i < length ys \<Longrightarrow> P (ys ! i)"
  unfolding ext_def by (auto simp: nth_append)

lemma quiet_ret: "quiet P L (ret x)"
  by (simp add: quiet_def ret_def ext_refl)

lemma quiet_throw: "quiet P L (throw e)"
  by (simp add: quiet_def throw_def ext_refl)

lemma quiet_query: "quiet P L (query f)"
  by (simp add: quiet_def query_def ext_refl)

lemma quiet_date_now: "quiet P L (date_now env)"
  by (simp add: quiet_def date_now_def ext_refl)

lemma quiet_sql_int: "quiet P L (sql_int env v)"
  by (simp add: sql_int_def quiet_ret quiet_throw split: sum.splits)

lemma quiet_perform: "P ev \<Longrightarrow> quiet P L (perform env ev)"
  by (simp add: quiet_def perform_def ext_refl ext_snoc split: sum.splits)

lemma quiet_execPromise: "P (Exec st c d t) \<Longrightarrow> quiet P L (execPromise env st c d t)"
  by (simp add: execPromise_def quiet_perform)

lemma quiet_bind:
  assumes "quiet P L m" and "\<And>x. quiet P L (f x)"
  shows "quiet P L (bind m f)"
  unfolding quiet_def
proof (intro allI)
  fix s
  obtain r s1 where ms: "m s = (r, s1)" by (cases "m s")
  have m: "ext P (trace s) (trace s1)" "ext L (build_logs s) (build_logs s1)"
    "deployments s1 = deployments s" "projects s1 = projects s" "files s1 = files s"
    using assms(1)[unfolded quiet_def, rule_format, of s] ms by simp_all
  show "ext P (trace s) (trace (snd (bind m f s))) \<and>
        ext L (build_logs s) (build_logs (snd (bind m f s))) \<and>
        deployments (snd (bind m f s)) = deployments s \<and>
        projects (snd (bind m f s)) = projects s \<and> files (snd (bind m f s)) = files s"
  proof (cases r)
    case (Thrown e)
    then show ?thesis using m ms by (simp add: bind_def)
  next
    case (Returned x)
    have b: "bind m f s = f x s1" using ms Returned by (simp add: bind_def)
    have fx: "ext P (trace s1) (trace (snd (f x s1)))"
      "ext L (build_logs s1) (build_logs (snd (f x s1)))"
      "deployments (snd (f x s1)) = deployments s1" "projects (snd (f x s1)) = projects s1"
      "files (snd (f x s1)) = files s1"
      using assms(2)[of x, unfolded quiet_def, rule_format, of s1] by simp_all
    show ?thesis unfolding b using m fx ext_trans by metis
  qed
qed

lemma quiet_try_catch:
  assumes "quiet P L m" and "\<And>e. quiet P L (h e)"
  shows "quiet P L (try_catch m h)"
  unfolding quiet_def
proof (intro allI)
  fix s
  obtain r s1 where ms: "m s = (r, s1)" by (cases "m s")
  have m: "ext P (trace s) (trace s1)" "ext L (build_logs s) (build_logs s1)"
    "deployments s1 = deployments s" "projects s1 = projects s" "files s1 = files s"
    using assms(1)[unfolded quiet_def, rule_format, of s] ms by simp_all
  show "ext P (trace s) (trace (snd (try_catch m h s))) \<and>
        ext L (build_logs s) (build_logs (snd (try_catch m h s))) \<and>
        deployments (snd (try_catch m h s)) = deployments s \<and>
        projects (snd (try_catch m h s)) = projects s \<and> files (snd (try_catch m h s)) = files s"
  proof (cases r)
    case (Returned x)
    then show ?thesis using m ms by (simp add: try_catch_def)
  next
    case (Thrown e)
    have b: "try_catch m h s = h e s1" using ms Thrown by (simp add: try_catch_def)
    have he: "ext P (trace s1) (trace (snd (h e s1)))"
      "ext L (build_logs s1) (build_logs (snd (h e s1)))"
      "deployments (snd (h e s1)) = deployments s1" "projects (snd (h e s1)) = projects s1"
      "files (snd (h e s1)) = files s1"
      using assms(2)[of e, unfolded quiet_def, rule_format, of s1] by simp_all
    show ?thesis unfolding b using m he ext_trans by metis
  qed
qed

lemma quietD:
  assumes "quiet P L m" and "m s = (r, s')"
  shows "ext P (trace s) (trace s')" and "ext L (build_logs s) (build_logs s')"
    and "deployments s' = deployments s" and "projects s' = projects s" and "files s' = files s"
  using assms(1)[unfolded quiet_def, rule_format, of s] assms(2) by simp_all

subsection \<open>What each operation of the engine touches\<close>

lemma quiet_addBuildLog:
  "L \<lparr>l_deployment_id = d, l_type = ty, l_message = msg\<rparr> \<Longrightarrow> quiet P L (addBuildLog env d ty msg)"
  by (simp add: quiet_def addBuildLog_def bind_def modify_def date_now_def ext_refl ext_snoc)

lemma quiet_write_files:
  assumes "\<And>e. stage_of e = None \<Longrightarrow> P e"
  shows "quiet P L (write_files env dir fs)"
  by (induction fs) (auto simp: Let_def assms intro!: quiet_ret quiet_bind quiet_perform)

lemma quiet_saveProjectFiles:
  assumes "\<And>e. stage_of e = None \<Longrightarrow> P e"
  shows "quiet P L (saveProjectFiles env projectId fs)"
  unfolding saveProjectFiles_def createDeployDirectory_def Let_def
  by (intro quiet_bind quiet_ret quiet_perform quiet_write_files) (simp_all add: assms)

lemma quiet_buildReactProject:
  assumes "\<And>e. stage_of e = Some Install \<or> stage_of e = Some Build \<Longrightarrow> P e"
    and "\<And>l. l_deployment_id l = d \<Longrightarrow> L l"
  shows "quiet P L (buildReactProject env dir d project)"
  unfolding buildReactProject_def
  by (intro quiet_try_catch quiet_bind quiet_ret quiet_throw quiet_execPromise quiet_addBuildLog)
    (simp_all add: assms)

lemma quiet_buildNextProject:
  assumes "\<And>e. stage_of e = Some Install \<or> stage_of e = Some Build \<Longrightarrow> P e"
    and "\<And>l. l_deployment_id l = d \<Longrightarrow> L l"
  shows "quiet P L (buildNextProject env dir d project)"
  unfolding buildNextProject_def
  by (intro quiet_try_catch quiet_bind quiet_ret quiet_throw quiet_execPromise quiet_addBuildLog)
    (simp_all add: assms)

lemma quiet_createDockerfile:
  assumes "\<And>e. stage_of e = None \<Longrightarrow> P e"
  shows "quiet P L (createDockerfile env dir project)"
  unfolding createDockerfile_def
  by (auto intro!: quiet_bind quiet_ret quiet_perform simp: assms)

lemma quiet_stop_old:
  assumes "\<And>e. stage_of e = Some StopOld \<or> stage_of e = Some RemoveOld \<Longrightarrow> P e"
  shows "quiet P L (stop_old env names)"
  by (induction names)
    (auto simp: assms split: option.splits intro!: quiet_ret quiet_bind quiet_execPromise)

lemma quiet_stop_previous:
  assumes "\<And>e. stage_of e = Some StopOld \<or> stage_of e = Some RemoveOld \<Longrightarrow> P e"
  shows "quiet P L (stop_previous env projectId d)"
  unfolding stop_previous_def
  by (intro quiet_try_catch quiet_bind quiet_ret quiet_sql_int quiet_query quiet_stop_old)
    (auto intro!: assms)

lemma quiet_createContainer:
  assumes "\<And>e. stage_of e \<in> {None, Some ImageBuild, Some StopOld, Some RemoveOld, Some RunContainer}
             \<Longrightarrow> P e"
    and "\<And>l. l_deployment_id l = d \<Longrightarrow> L l"
  shows "quiet P L (createContainer env projectId d project dir)"
  unfolding createContainer_def Let_def
  by (intro quiet_try_catch quiet_bind quiet_ret quiet_throw quiet_execPromise quiet_addBuildLog
      quiet_date_now quiet_createDockerfile quiet_stop_previous)
    (auto intro!: assms)

lemma quiet_configureNginx:
  assumes "\<And>e. stage_of e \<in> {None, Some ProxyTest, Some ProxyReload} \<Longrightarrow> P e"
  shows "quiet P L (configureNginx env projectId hostPort domain)"
  unfolding configureNginx_def Let_def
  by (intro quiet_try_catch quiet_bind quiet_ret quiet_throw quiet_execPromise quiet_perform)
    (auto intro!: assms)

section \<open>Port allocation\<close>

lemma hostPort_of_Num: "hostPort_of (Num n) = Num (10000 + n)"
  by (simp add: hostPort_of_def)

lemma hostPort_of_Str: "hostPort_of (Str s) = Str (''10000'' @ s)"
  by (simp add: hostPort_of_def show_int_def show_nat.simps digit_char_def)

lemma hostPort_of_inj: "hostPort_of a = hostPort_of b \<Longrightarrow> a = b"
  by (cases a; cases b) (simp_all add: hostPort_of_Num hostPort_of_Str)

lemmas run_defs = deploy_def deploy_steps_def build_project_def deploy_catch_def deployment_id_in_catch_def bind_def try_catch_def ret_def
  throw_def query_def modify_def date_now_def sql_int_def insert_deployment_def addBuildLog_def
  next_deployment_id_def saveProjectFiles_def createDeployDirectory_def perform_def
  execPromise_def buildReactProject_def buildNextProject_def createDockerfile_def
  createContainer_def stop_previous_def configureNginx_def stopDeployment_def hostPort_of_def Let_def
  set_running_def set_superseded_def set_status_def str_or_def num_or_def truthy_def

lemmas example_defs = env_ok_def env_install_fails_def env_syntax_fails_def env_stop_fails_def
  pg_example_def project7_def world7_def world7_empty_def world7_redeploy_def old_deployments_def

text \<open>
  C3 (the code at a project id as the deploy route passes it).  The route hands
  \<open>req.params.projectId\<close>, a string, to \<open>deploy\<close>; \<open>10000 + projectId\<close> then concatenates: for
  project \<open>'7'\<close> the host port is the string \<open>'100007'\<close>, not 10007, and it is the port given
  to \<open>docker run -p\<close>.
\<close>

theorem hostPort_of_route_id:
  "hostPort_of (Str ''7'') = Str ''100007'' \<and>
   hostPort_of (Str ''7'') \<noteq> Num (10000 + 7) \<and>
   Exec RunContainer
     ''docker run -d --name criacode-project-7-3000 -p 100007:3000 --restart unless-stopped criacode-7:latest''
     None None
   \<in> set (trace (snd (deploy env_ok (Str ''7'') 1 ''Deploy manual'' (world7 ''node''))))"
  by (simp add: run_defs example_defs show_int_def show_nat.simps digit_char_def)

section \<open>Stopping a deployment\<close>

text \<open>
  C9.  \<open>stopDeployment\<close> never rejects.  When the database finds no deployment of that id,
  or one without an instance name, it returns \<open>true\<close> and leaves the state as it was (no
  command is run).  When the deployment has an instance name and \<open>docker stop\<close> fails, or
  \<open>docker stop\<close> succeeds and \<open>docker rm\<close> fails, it returns \<open>false\<close>.
\<close>

theorem stopDeployment_best_effort:
  "(\<forall>e. fst (stopDeployment env deploymentId s) \<noteq> Thrown e) \<and>
   (pg_int env deploymentId = Inr i \<and>
    (\<forall>d. find (\<lambda>d. d_id d = i) (deployments s) = Some d \<longrightarrow> \<not> truthy (container_name d))
    \<longrightarrow> stopDeployment env deploymentId s = (Returned True, s)) \<and>
   (pg_int env deploymentId = Inr i \<and> find (\<lambda>d. d_id d = i) (deployments s) = Some d \<and>
    container_name d = Some n \<and> n \<noteq> [] \<and>
    (respond env (length (trace s)) (Exec StopInstance (''docker stop '' @ n) None None) = Inl m \<or>
     respond env (length (trace s)) (Exec StopInstance (''docker stop '' @ n) None None) = Inr out \<and>
     respond env (Suc (length (trace s))) (Exec RemoveInstance (''docker rm '' @ n) None None) = Inl m)
    \<longrightarrow> fst (stopDeployment env deploymentId s) = Returned False)"
proof (intro conjI allI impI)
  fix e
  show "fst (stopDeployment env deploymentId s) \<noteq> Thrown e"
    by (simp add: stopDeployment_def try_catch_def ret_def split: prod.splits outcome.splits)
next
  assume "pg_int env deploymentId = Inr i \<and>
    (\<forall>d. find (\<lambda>d. d_id d = i) (deployments s) = Some d \<longrightarrow> \<not> truthy (container_name d))"
  then show "stopDeployment env deploymentId s = (Returned True, s)"
    by (cases "find (\<lambda>d. d_id d = i) (deployments s)")
      (auto simp: stopDeployment_def try_catch_def bind_def ret_def sql_int_def query_def truthy_def
        split: option.splits)
next
  assume "pg_int env deploymentId = Inr i \<and> find (\<lambda>d. d_id d = i) (deployments s) = Some d \<and>
    container_name d = Some n \<and> n \<noteq> [] \<and>
    (respond env (length (trace s)) (Exec StopInstance (''docker stop '' @ n) None None) = Inl m \<or>
     respond env (length (trace s)) (Exec StopInstance (''docker stop '' @ n) None None) = Inr out \<and>
     respond env (Suc (length (trace s))) (Exec RemoveInstance (''docker rm '' @ n) None None) = Inl m)"
  then show "fst (stopDeployment env deploymentId s) = Returned False"
    by (auto simp: stopDeployment_def try_catch_def bind_def ret_def sql_int_def query_def
        execPromise_def perform_def)
qed

theorem stopDeployment_best_effort_witness:
  "stopDeployment env_ok (Num 3) world7_redeploy = (Returned True, world7_redeploy) \<and>
   stopDeployment env_ok (Str ''7'') world7_redeploy = (Returned True, world7_redeploy) \<and>
   fst (stopDeployment env_stop_fails (Num 1) world7_redeploy) = Returned False"
  using stopDeployment_best_effort [of env_ok "Num 3" world7_redeploy 3]
    stopDeployment_best_effort [of env_ok "Str ''7''" world7_redeploy 7]
    stopDeployment_best_effort [of env_stop_fails "Num 1" world7_redeploy 1 "hd old_deployments"
      "''criacode-project-7-1700000000000''" "''Command failed: docker stop''"]
  by (simp add: example_defs truthy_def)

section \<open>Configuring the reverse proxy\<close>

text \<open>The possible runs of \<open>configureNginx\<close>: the effects it performs and how it ends.\<close>

lemma configureNginx_runs:
  assumes run: "configureNginx env projectId hostPort domain s = (r, s')"
    and n: "n = length (trace s)"
    and e0: "e0 = WriteFile (Join (Dir nginxConfigDir) (''criacode-project-'' @ to_string projectId))
                   (nginxConfig (str_or domain (''project-'' @ to_string projectId @ ''.local'')) hostPort)"
    and e1: "e1 = Unlink (Join (Dir nginxEnabledDir) (''criacode-project-'' @ to_string projectId))"
    and e2: "e2 = Symlink (Join (Dir nginxConfigDir) (''criacode-project-'' @ to_string projectId))
                   (Join (Dir nginxEnabledDir) (''criacode-project-'' @ to_string projectId))"
    and e3: "e3 = Exec ProxyTest ''nginx -t'' None None"
    and e4: "e4 = Exec ProxyReload ''nginx -s reload'' None None"
  shows "(trace s' = trace s @ [e0] \<and> (\<exists>m. respond env n e0 = Inl m \<and> r = Thrown (Error m))) \<or>
         (trace s' = trace s @ [e0, e1, e2] \<and> (\<exists>m. respond env (n + 2) e2 = Inl m \<and> r = Thrown (Error m))) \<or>
         (trace s' = trace s @ [e0, e1, e2, e3] \<and> (\<exists>m. respond env (n + 3) e3 = Inl m \<and> r = Thrown (Error m))) \<or>
         (trace s' = trace s @ [e0, e1, e2, e3, e4] \<and> (\<exists>out. respond env (n + 3) e3 = Inr out) \<and>
            (\<exists>m. respond env (n + 4) e4 = Inl m \<and> r = Thrown (Error m))) \<or>
         (trace s' = trace s @ [e0, e1, e2, e3, e4] \<and> (\<exists>out. respond env (n + 3) e3 = Inr out) \<and>
            (\<exists>out. respond env (n + 4) e4 = Inr out) \<and>
            r = Returned (str_or domain (''project-'' @ to_string projectId @ ''.local'')))"
proof -
  note defs = configureNginx_def Let_def bind_def try_catch_def ret_def throw_def perform_def
    execPromise_def
  show ?thesis
  proof (cases "respond env n e0")
    case (Inl m)
    then show ?thesis using run unfolding n e0 e1 e2 e3 e4 by (auto simp: defs)
  next
    case a0: (Inr out0)
    show ?thesis
    proof (cases "respond env (n + 2) e2")
      case (Inl m)
      then show ?thesis using run a0 unfolding n e0 e1 e2 e3 e4
        by (cases "respond env (Suc (length (trace s)))
              (Unlink (Join (Dir nginxEnabledDir) (''criacode-project-'' @ to_string projectId)))")
          (auto simp: defs eval_nat_numeral)
    next
      case a2: (Inr out2)
      show ?thesis
      proof (cases "respond env (n + 3) e3")
        case (Inl m)
        then show ?thesis using run a0 a2 unfolding n e0 e1 e2 e3 e4
          by (cases "respond env (Suc (length (trace s)))
                (Unlink (Join (Dir nginxEnabledDir) (''criacode-project-'' @ to_string projectId)))")
            (auto simp: defs eval_nat_numeral)
      next
        case a3: (Inr out3)
        show ?thesis
        proof (cases "respond env (n + 4) e4")
          case (Inl m)
          then show ?thesis using run a0 a2 a3 unfolding n e0 e1 e2 e3 e4
            by (cases "respond env (Suc (length (trace s)))
                  (Unlink (Join (Dir nginxEnabledDir) (''criacode-project-'' @ to_string projectId)))")
              (auto simp: defs eval_nat_numeral)
        next
          case (Inr out4)
          then show ?thesis using run a0 a2 a3 unfolding n e0 e1 e2 e3 e4
            by (cases "respond env (Suc (length (trace s)))
                  (Unlink (Join (Dir nginxEnabledDir) (''criacode-project-'' @ to_string projectId)))")
              (auto simp: defs eval_nat_numeral)
        qed
      qed
    qed
  qed
qed

text \<open>
  C6.  In a run of \<open>configureNginx\<close>, a reload of the proxy is directly preceded by the
  syntax check \<open>nginx -t\<close>, which succeeded; when the syntax check fails, the operation
  rejects with that error, the failed check is its last effect and it has sent no reload,
  so the proxy keeps the configuration it had loaded.
\<close>

theorem configureNginx_checks_before_reload:
  assumes run: "configureNginx env projectId hostPort domain s = (r, s')"
  shows "(\<forall>k. length (trace s) \<le> k \<and> k < length (trace s') \<and>
              stage_of (trace s' ! k) = Some ProxyReload \<longrightarrow>
              length (trace s) < k \<and> trace s' ! (k - 1) = Exec ProxyTest ''nginx -t'' None None \<and>
              (\<exists>out. respond env (k - 1) (trace s' ! (k - 1)) = Inr out)) \<and>
         (\<forall>k m. length (trace s) \<le> k \<and> k < length (trace s') \<and>
              stage_of (trace s' ! k) = Some ProxyTest \<and> respond env k (trace s' ! k) = Inl m \<longrightarrow>
              r = Thrown (Error m) \<and> Suc k = length (trace s') \<and>
              (\<forall>j. length (trace s) \<le> j \<and> j < length (trace s') \<longrightarrow>
                   stage_of (trace s' ! j) \<noteq> Some ProxyReload))"
proof -
  define n where "n = length (trace s)"
  define e0 where "e0 = WriteFile (Join (Dir nginxConfigDir) (''criacode-project-'' @ to_string projectId))
                   (nginxConfig (str_or domain (''project-'' @ to_string projectId @ ''.local'')) hostPort)"
  define e1 where "e1 = Unlink (Join (Dir nginxEnabledDir) (''criacode-project-'' @ to_string projectId))"
  define e2 where "e2 = Symlink (Join (Dir nginxConfigDir) (''criacode-project-'' @ to_string projectId))
                   (Join (Dir nginxEnabledDir) (''criacode-project-'' @ to_string projectId))"
  define e3 where "e3 = Exec ProxyTest ''nginx -t'' None None"
  define e4 where "e4 = Exec ProxyReload ''nginx -s reload'' None None"
  have st: "stage_of e0 = None" "stage_of e1 = None" "stage_of e2 = None"
    "stage_of e3 = Some ProxyTest" "stage_of e4 = Some ProxyReload"
    by (simp_all add: e0_def e1_def e2_def e3_def e4_def)
  note runs = configureNginx_runs [OF run n_def e0_def e1_def e2_def e3_def e4_def]
  have sel: "\<exists>j<length es. k = n + j \<and> trace s' ! k = es ! j"
    if "trace s' = trace s @ es" "n \<le> k" "k < length (trace s')" for k es
    using that by (auto simp: n_def nth_append intro!: exI [of _ "k - length (trace s)"])
  have reload: "n < k \<and> trace s' ! (k - 1) = e3 \<and> (\<exists>out. respond env (k - 1) (trace s' ! (k - 1)) = Inr out)"
    if k: "n \<le> k" "k < length (trace s')" "stage_of (trace s' ! k) = Some ProxyReload" for k
    using runs
  proof (elim disjE conjE exE)
    assume tr: "trace s' = trace s @ [e0]"
    from sel [OF tr k(1,2)] k(3) st show ?thesis by (auto simp: less_Suc_eq)
  next
    assume tr: "trace s' = trace s @ [e0, e1, e2]"
    from sel [OF tr k(1,2)] k(3) st show ?thesis by (auto simp: less_Suc_eq)
  next
    assume tr: "trace s' = trace s @ [e0, e1, e2, e3]"
    from sel [OF tr k(1,2)] k(3) st show ?thesis by (auto simp: less_Suc_eq)
  next
    fix out assume tr: "trace s' = trace s @ [e0, e1, e2, e3, e4]"
      and ok: "respond env (n + 3) e3 = Inr out"
    from sel [OF tr k(1,2)] k(3) st have "k = n + 4" by (auto simp: less_Suc_eq)
    then show ?thesis using tr ok by (auto simp: n_def nth_append ac_simps)
  next
    fix out assume tr: "trace s' = trace s @ [e0, e1, e2, e3, e4]"
      and ok: "respond env (n + 3) e3 = Inr out"
    from sel [OF tr k(1,2)] k(3) st have "k = n + 4" by (auto simp: less_Suc_eq)
    then show ?thesis using tr ok by (auto simp: n_def nth_append ac_simps)
  qed
  have check: "r = Thrown (Error m) \<and> Suc k = length (trace s') \<and>
      (\<forall>j. n \<le> j \<and> j < length (trace s') \<longrightarrow> stage_of (trace s' ! j) \<noteq> Some ProxyReload)"
    if k: "n \<le> k" "k < length (trace s')" "stage_of (trace s' ! k) = Some ProxyTest"
      "respond env k (trace s' ! k) = Inl m" for k m
    using runs
  proof (elim disjE conjE exE)
    assume tr: "trace s' = trace s @ [e0]"
    from sel [OF tr k(1,2)] k(3) st show ?thesis by (auto simp: less_Suc_eq)
  next
    assume tr: "trace s' = trace s @ [e0, e1, e2]"
    from sel [OF tr k(1,2)] k(3) st show ?thesis by (auto simp: less_Suc_eq)
  next
    fix m' assume tr: "trace s' = trace s @ [e0, e1, e2, e3]"
      and bad: "respond env (n + 3) e3 = Inl m'" and r: "r = Thrown (Error m')"
    from sel [OF tr k(1,2)] k(3) st have k3: "k = n + 3" by (auto simp: less_Suc_eq)
    then have "trace s' ! k = e3" using tr by (simp add: n_def nth_append)
    then have "m' = m" using k(4) bad k3 by simp
    moreover have "stage_of (trace s' ! j) \<noteq> Some ProxyReload" if "n \<le> j" "j < length (trace s')" for j
      using sel [OF tr that] st by (auto simp: less_Suc_eq)
    ultimately show ?thesis using r k3 tr by (simp add: n_def)
  next
    fix out assume tr: "trace s' = trace s @ [e0, e1, e2, e3, e4]"
      and ok: "respond env (n + 3) e3 = Inr out"
    from sel [OF tr k(1,2)] k(3) st have k3: "k = n + 3" by (auto simp: less_Suc_eq)
    then have "trace s' ! k = e3" using tr by (simp add: n_def nth_append)
    then show ?thesis using k(4) ok k3 by simp
  next
    fix out assume tr: "trace s' = trace s @ [e0, e1, e2, e3, e4]"
      and ok: "respond env (n + 3) e3 = Inr out"
    from sel [OF tr k(1,2)] k(3) st have k3: "k = n + 3" by (auto simp: less_Suc_eq)
    then have "trace s' ! k = e3" using tr by (simp add: n_def nth_append)
    then show ?thesis using k(4) ok k3 by simp
  qed
  from reload check show ?thesis
    unfolding n_def e3_def by blast
qed

theorem configureNginx_checks_before_reload_witness:
  "fst (configureNginx env_syntax_fails (Num 7) (Num 10007) None (world7 ''react'')) =
     Thrown (Error ''Command failed: nginx -t'') \<and>
   length (trace (snd (configureNginx env_syntax_fails (Num 7) (Num 10007) None (world7 ''react'')))) = 4 \<and>
   trace (snd (configureNginx env_ok (Num 7) (Num 10007) None (world7 ''react''))) ! 3
     = Exec ProxyTest ''nginx -t'' None None"
proof -
  let ?bad = "configureNginx env_syntax_fails (Num 7) (Num 10007) None (world7 ''react'')"
  let ?good = "configureNginx env_ok (Num 7) (Num 10007) None (world7 ''react'')"
  have run_bad: "?bad = (fst ?bad, snd ?bad)" and run_good: "?good = (fst ?good, snd ?good)"
    by simp_all
  have s0: "length (trace (world7 ''react'')) = 0"
    by (simp add: world7_def)
  have bad3: "trace (snd ?bad) ! 3 = Exec ProxyTest ''nginx -t'' None None"
    and bad_len: "length (trace (snd ?bad)) = 4"
    by (simp_all add: run_defs example_defs)
  have good4: "trace (snd ?good) ! 4 = Exec ProxyReload ''nginx -s reload'' None None"
    and good_len: "length (trace (snd ?good)) = 5"
    by (simp_all add: run_defs example_defs)
  have resp: "respond env_syntax_fails 3 (Exec ProxyTest ''nginx -t'' None None)
                = Inl ''Command failed: nginx -t''"
    by (simp add: env_syntax_fails_def)
  note b = configureNginx_checks_before_reload [OF run_bad, THEN conjunct2, rule_format,
      of 3 "''Command failed: nginx -t''"]
  have bad: "fst ?bad = Thrown (Error ''Command failed: nginx -t'')"
    using b s0 bad3 bad_len resp by simp
  note g = configureNginx_checks_before_reload [OF run_good, THEN conjunct1, rule_format, of 4]
  have good: "trace (snd ?good) ! 3 = Exec ProxyTest ''nginx -t'' None None"
    using g s0 good4 good_len by simp
  from bad bad_len good show ?thesis by simp
qed

section \<open>Runs of the deploy pipeline\<close>

lemma addBuildLog_run:
  "addBuildLog env d ty m s =
     (Returned (),
      s\<lparr>build_logs := build_logs s @ [\<lparr>l_deployment_id = d, l_type = ty, l_message = m\<rparr>],
        clock_reads := Suc (clock_reads s),
        emits := emits s @ [\<lparr>e_room = ''deployment-'' @ show_int d, e_type = ty, e_message = m,
                               e_timestamp = clock env (clock_reads s)\<rparr>]\<rparr>)"
  by (simp add: addBuildLog_def bind_def modify_def date_now_def)

lemma execPromise_Returned_iff:
  "execPromise env st c d t s = (Returned out, s') \<longleftrightarrow>
     respond env (length (trace s)) (Exec st c d t) = Inr out \<and>
     s' = s\<lparr>trace := trace s @ [Exec st c d t]\<rparr>"
  by (auto simp: execPromise_def perform_def split: sum.splits)

lemma createDockerfile_frame:
  assumes "createDockerfile env dir project s = (r, s')"
  shows "deployments s' = deployments s" and "ext (\<lambda>e. stage_of e = None) (trace s) (trace s')"
  using quietD [OF quiet_createDockerfile [of "\<lambda>e. stage_of e = None" "\<lambda>_. True"] assms] by simp_all

lemma stop_previous_frame:
  assumes "stop_previous env projectId d s = (r, s')"
  shows "deployments s' = deployments s"
    and "ext (\<lambda>e. stage_of e = Some StopOld \<or> stage_of e = Some RemoveOld) (trace s) (trace s')"
  using quietD [OF quiet_stop_previous
      [of "\<lambda>e. stage_of e = Some StopOld \<or> stage_of e = Some RemoveOld" "\<lambda>_. True"] assms]
  by simp_all

text \<open>
  When \<open>createContainer\<close> returns, it returns the port \<open>10000 + projectId\<close>, and its last
  effect was the \<open>docker run\<close> that publishes that port.
\<close>

lemma createContainer_Returned:
  assumes "createContainer env projectId d project dir s = (Returned (containerId, containerName, hostPort), s')"
  shows "hostPort = hostPort_of projectId"
    and "deployments s' = deployments s"
    and "length (trace s) < length (trace s')"
    and "last (trace s') = Exec RunContainer
           (''docker run -d --name '' @ containerName @ '' -p '' @ to_string (hostPort_of projectId)
            @ '':'' @ show_int (num_or (p_port project) 3000) @ '' --restart unless-stopped ''
            @ ''criacode-'' @ to_string projectId @ '':latest'') None None"
proof -
  from assms obtain s1 s2 s3 out
    where df: "createDockerfile env dir project s1 = (Returned (), s2)"
      and s1: "trace s1 = trace s" "deployments s1 = deployments s"
      and sp: "stop_previous env projectId d
                 (s2\<lparr>build_logs := build_logs s2 @ [\<lparr>l_deployment_id = d, l_type = LogInfo, l_message = msg_building_image\<rparr>],
                     clock_reads := Suc (clock_reads s2),
                     emits := emits s2 @ [\<lparr>e_room = ''deployment-'' @ show_int d, e_type = LogInfo,
                        e_message = msg_building_image, e_timestamp = clock env (clock_reads s2)\<rparr>],
                     trace := trace s2 @ [Exec ImageBuild (''docker build -t '' @ ''criacode-'' @ to_string projectId @ '':latest'' @ '' .'') (Some dir) (Some 900000)]\<rparr>)
               = (Returned (), s3)"
      and fin: "trace s' = trace s3 @ [Exec RunContainer
           (''docker run -d --name '' @ containerName @ '' -p '' @ to_string (hostPort_of projectId)
            @ '':'' @ show_int (num_or (p_port project) 3000) @ '' --restart unless-stopped ''
            @ ''criacode-'' @ to_string projectId @ '':latest'') None None]"
        "deployments s' = deployments s3" "hostPort = hostPort_of projectId"
    by (auto simp: createContainer_def bind_Returned_iff try_catch_cases date_now_def
        addBuildLog_run Let_def execPromise_Returned_iff throw_def ret_def)
  from createDockerfile_frame [OF df] stop_previous_frame [OF sp] s1 fin
  show "hostPort = hostPort_of projectId" and "deployments s' = deployments s"
    and "length (trace s) < length (trace s')"
    and "last (trace s') = Exec RunContainer
           (''docker run -d --name '' @ containerName @ '' -p '' @ to_string (hostPort_of projectId)
            @ '':'' @ show_int (num_or (p_port project) 3000) @ '' --restart unless-stopped ''
            @ ''criacode-'' @ to_string projectId @ '':latest'') None None"
    by (auto dest!: ext_length)
qed

lemma configureNginx_Returned:
  assumes "configureNginx env projectId hostPort domain s = (Returned serverName, s')"
  shows "serverName = str_or domain (''project-'' @ to_string projectId @ ''.local'')"
    and "deployments s' = deployments s"
    and "ext (\<lambda>_. True) (trace s) (trace s')"
proof -
  from configureNginx_runs [OF assms refl refl refl refl refl refl]
  show "serverName = str_or domain (''project-'' @ to_string projectId @ ''.local'')"
    by auto
  from quietD [OF quiet_configureNginx [of "\<lambda>_. True" "\<lambda>_. True"] assms]
  show "deployments s' = deployments s" and "ext (\<lambda>_. True) (trace s) (trace s')"
    by simp_all
qed

lemma saveProjectFiles_frame:
  assumes "saveProjectFiles env projectId fs s = (r, s')"
  shows "deployments s' = deployments s" and "ext (\<lambda>e. stage_of e = None) (trace s) (trace s')"
  using quietD [OF quiet_saveProjectFiles [of "\<lambda>e. stage_of e = None" "\<lambda>_. True"] assms] by simp_all

lemma quiet_build_project:
  assumes "\<And>e. stage_of e = Some Install \<or> stage_of e = Some Build \<Longrightarrow> P e"
    and "\<And>l. l_deployment_id l = d \<Longrightarrow> L l"
  shows "quiet P L (build_project env dir d project)"
  unfolding build_project_def
  by (auto intro!: quiet_bind quiet_ret quiet_buildReactProject quiet_buildNextProject assms)

lemma build_project_frame:
  assumes "build_project env dir d project s = (r, s')"
  shows "deployments s' = deployments s" and "ext (\<lambda>_. True) (trace s) (trace s')"
  using quietD [OF quiet_build_project [of "\<lambda>_. True" d "\<lambda>_. True"] assms] by simp_all

text \<open>
  A run of the pipeline that returns: the result is a success record, the public URL is the
  synthesized host name, the tables changed by the two final \<open>UPDATE\<close>s only, and a
  \<open>docker run\<close> publishing the port \<open>10000 + projectId\<close> was issued.
\<close>

lemma deploy_steps_Returned:
  assumes "deploy_steps env projectId p project d startTime s = (Returned r, s')"
  shows "\<exists>containerId containerName buildDuration k.
           r = \<lparr>success = True, r_deploymentId = Some d,
                 r_url = Some (''http://project-'' @ to_string projectId @ ''.local''),
                 r_buildDuration = Some buildDuration, r_error = None\<rparr> \<and>
           deployments s' =
             map (set_superseded p d)
               (map (set_running d containerId containerName
                      (''http://project-'' @ to_string projectId @ ''.local'') buildDuration)
                  (deployments s)) \<and>
           length (trace s) \<le> k \<and> k < length (trace s') \<and>
           trace s' ! k = Exec RunContainer
             (''docker run -d --name '' @ containerName @ '' -p '' @ to_string (hostPort_of projectId)
              @ '':'' @ show_int (num_or (p_port project) 3000) @ '' --restart unless-stopped ''
              @ ''criacode-'' @ to_string projectId @ '':latest'') None None"
proof -
  from assms obtain fs dir s1 s2 s3 s4 s5 containerId containerName hostPort serverName buildDuration
    where sv: "saveProjectFiles env projectId fs s1 = (Returned dir, s2)"
      and s1: "trace s1 = trace s" "deployments s1 = deployments s"
      and bd: "build_project env dir d project s2 = (Returned (), s3)"
      and cc: "createContainer env projectId d project dir s3 = (Returned (containerId, containerName, hostPort), s4)"
      and cn: "configureNginx env projectId hostPort None
                 (s4\<lparr>build_logs := build_logs s4 @ [\<lparr>l_deployment_id = d, l_type = LogInfo, l_message = msg_configuring_proxy\<rparr>],
                     clock_reads := Suc (clock_reads s4),
                     emits := emits s4 @ [\<lparr>e_room = ''deployment-'' @ show_int d, e_type = LogInfo,
                        e_message = msg_configuring_proxy, e_timestamp = clock env (clock_reads s4)\<rparr>]\<rparr>)
               = (Returned serverName, s5)"
      and fin: "trace s' = trace s5"
        "deployments s' = map (set_superseded p d)
               (map (set_running d containerId containerName (''http://'' @ serverName) buildDuration)
                  (deployments s5))"
        "r = \<lparr>success = True, r_deploymentId = Some d, r_url = Some (''http://'' @ serverName),
                 r_buildDuration = Some buildDuration, r_error = None\<rparr>"
    by (auto simp: deploy_steps_def bind_Returned_iff addBuildLog_run query_def modify_def
        date_now_def Let_def throw_def ret_def split: if_splits)
  note f1 = saveProjectFiles_frame [OF sv]
  note f2 = build_project_frame [OF bd]
  note f3 = createContainer_Returned [OF cc]
  note f4 = configureNginx_Returned [OF cn]
  have name: "serverName = ''project-'' @ to_string projectId @ ''.local''"
    using f4(1) by (simp add: str_or_def)
  have dep: "deployments s5 = deployments s"
    using f1(1) f2(1) f3(2) f4(2) s1 by simp
  let ?k = "length (trace s4) - 1"
  have k4: "?k < length (trace s4)" "length (trace s3) \<le> ?k"
    using f3(3) by simp_all
  have "trace s4 ! ?k = last (trace s4)"
    using k4(1) by (metis last_conv_nth length_greater_0_conv less_nat_zero_code list.size(3))
  moreover have "trace s5 ! ?k = trace s4 ! ?k"
    using ext_nth_old [OF f4(3)] k4(1) by simp
  moreover have "length (trace s) \<le> ?k"
    using k4(2) ext_length [OF f1(2)] ext_length [OF f2(2)] s1 by simp
  moreover have "?k < length (trace s5)"
    using k4(1) ext_length [OF f4(3)] by simp
  ultimately show ?thesis
    using fin name dep f3(4) by (intro exI [of _ containerId] exI [of _ containerName]
        exI [of _ buildDuration] exI [of _ ?k]) simp
qed

lemma next_deployment_id_fresh: "x \<in> set ds \<Longrightarrow> d_id x < next_deployment_id ds"
proof -
  have "\<And>a. y \<in> set ys \<Longrightarrow> y \<le> foldr max ys (a::int)" for y ys
    by (induction ys) (auto simp: le_max_iff_disj)
  then show "x \<in> set ds \<Longrightarrow> d_id x < next_deployment_id ds"
    unfolding next_deployment_id_def
    by (metis add.commute image_eqI less_add_one list.set_map order_le_less_trans zless_add1_eq)
qed

text \<open>A run of \<open>deploy\<close> that returns went through the pipeline for a project row it found.\<close>

lemma deploy_Returned:
  assumes "deploy env projectId userId commitMessage s = (Returned r, s')"
  shows "\<exists>p project.
           pg_int env projectId = Inr p \<and>
           find (\<lambda>r. p_id r = p \<and> p_user_id r = Some userId) (projects s) = Some project \<and>
           deploy_steps env projectId p project (next_deployment_id (deployments s))
             (clock env (clock_reads s))
             (s\<lparr>clock_reads := Suc (clock_reads s),
                deployments := deployments s @
                  [\<lparr>d_id = next_deployment_id (deployments s), d_project_id = Some p,
                    status = Building, container_id = None, container_name = None, url = None,
                    commit_message = Some commitMessage, build_duration = None\<rparr>]\<rparr>)
           = (Returned r, s')"
  using assms
  by (auto simp: deploy_def bind_Returned_iff try_catch_cases date_now_def sql_int_def query_def
      deploy_catch_def deployment_id_in_catch_def throw_def ret_def insert_deployment_def Let_def
      split: sum.splits option.splits)

section \<open>The deployment records after a deploy\<close>

lemma set_running_other: "d_id x \<noteq> d \<Longrightarrow> set_running d c n u b x = x"
  by (simp add: set_running_def)

text \<open>
  C1.  After a deploy that returns its (success) result, the deployments of the project
  with status \<open>running\<close> are exactly one row, the one the result names, and every row of
  the project that was \<open>running\<close> before is now the same row with status \<open>stopped\<close>.
\<close>

theorem deploy_single_running:
  assumes run: "deploy env projectId userId commitMessage s = (Returned r, s')"
    and p: "pg_int env projectId = Inr p"
  shows "(\<exists>d. [x \<leftarrow> deployments s'. d_project_id x = Some p \<and> status x = Running] = [d] \<and>
              r_deploymentId r = Some (d_id d)) \<and>
         (\<forall>x\<in>set (deployments s). d_project_id x = Some p \<and> status x = Running \<longrightarrow>
              x\<lparr>status := Stopped\<rparr> \<in> set (deployments s'))"
proof -
  define d where "d = next_deployment_id (deployments s)"
  define new where "new = \<lparr>d_id = d, d_project_id = Some p, status = Building, container_id = None,
    container_name = None, url = None, commit_message = Some commitMessage, build_duration = None\<rparr>"
  from deploy_Returned [OF run] p obtain project s0
    where steps: "deploy_steps env projectId p project d (clock env (clock_reads s)) s0 = (Returned r, s')"
      and s0: "deployments s0 = deployments s @ [new]"
    unfolding d_def new_def by auto
  define u where "u = ''http://project-'' @ to_string projectId @ ''.local''"
  from deploy_steps_Returned [OF steps] obtain c n b
    where r0: "r = \<lparr>success = True, r_deploymentId = Some d, r_url = Some u,
                 r_buildDuration = Some b, r_error = None\<rparr>"
      and dep: "deployments s' =
                  map (set_superseded p d) (map (set_running d c n u b) (deployments s0))"
    unfolding u_def by blast
  have r: "r_deploymentId r = Some d" using r0 by simp
  have fresh: "\<And>x. x \<in> set (deployments s) \<Longrightarrow> d_id x \<noteq> d"
    using next_deployment_id_fresh unfolding d_def by fastforce
  have old: "map (set_running d c n u b) (deployments s) = deployments s"
    using fresh by (simp add: set_running_other map_idI)
  define new' where "new' = set_superseded p d (set_running d c n u b new)"
  have new': "d_id new' = d" "d_project_id new' = Some p" "status new' = Running"
    by (simp_all add: new'_def new_def set_running_def set_superseded_def)
  have shape: "deployments s' = map (set_superseded p d) (deployments s) @ [new']"
    using dep s0 old by (simp add: new'_def)
  have "[x \<leftarrow> map (set_superseded p d) (deployments s). d_project_id x = Some p \<and> status x = Running] = []"
    using fresh by (auto simp: filter_empty_conv set_superseded_def)
  then have one: "[x \<leftarrow> deployments s'. d_project_id x = Some p \<and> status x = Running] = [new']"
    using shape new' by simp
  have stopped: "x\<lparr>status := Stopped\<rparr> \<in> set (deployments s')"
    if "x \<in> set (deployments s)" "d_project_id x = Some p" "status x = Running" for x
  proof -
    have "set_superseded p d x = x\<lparr>status := Stopped\<rparr>"
      using that fresh by (simp add: set_superseded_def)
    then show ?thesis using that(1) shape by (metis Un_iff image_eqI set_append set_map)
  qed
  from one r new'(1) stopped show ?thesis by auto
qed

theorem deploy_single_running_witness:
  "map status (deployments (snd (deploy env_ok (Num 7) 1 ''Deploy manual'' world7_redeploy)))
     = [Stopped, Running, Building, Running] \<and>
   map d_project_id (deployments (snd (deploy env_ok (Num 7) 1 ''Deploy manual'' world7_redeploy)))
     = [Some 7, Some 8, Some 7, Some 7] \<and>
   r_deploymentId (case fst (deploy env_ok (Num 7) 1 ''Deploy manual'' world7_redeploy) of
                     Returned r \<Rightarrow> r) = Some 4"
proof -
  let ?run = "deploy env_ok (Num 7) 1 ''Deploy manual'' world7_redeploy"
  have res: "fst ?run = Returned \<lparr>success = True, r_deploymentId = Some 4,
      r_url = Some ''http://project-7.local'', r_buildDuration = Some 13, r_error = None\<rparr>"
    by (simp add: run_defs example_defs show_int_def show_nat.simps digit_char_def)
  then have run: "?run = (Returned \<lparr>success = True, r_deploymentId = Some 4,
      r_url = Some ''http://project-7.local'', r_buildDuration = Some 13, r_error = None\<rparr>, snd ?run)"
    by (metis prod.collapse)
  have p: "pg_int env_ok (Num 7) = Inr 7"
    by (simp add: example_defs)
  have st: "map status (deployments (snd ?run)) = [Stopped, Running, Building, Running]"
    and pr: "map d_project_id (deployments (snd ?run)) = [Some 7, Some 8, Some 7, Some 7]"
    by (simp_all add: run_defs example_defs)
  from deploy_single_running [OF run p] res st pr show ?thesis by simp
qed

section \<open>The public host name\<close>

text \<open>
  \<open>configureNginx\<close> answers with the domain it is given when that is a non-empty string and
  with \<open>project-<id>.local\<close> otherwise.  \<open>deploy\<close> gives it no domain.  When \<open>deploy\<close> is called
  with the number 7, a run that returns leaves the deployment it names \<open>running\<close> with the
  URL \<open>http://project-7.local\<close>, and has started the container with host port 10007.
\<close>

lemma hostname_policy:
  "(configureNginx env projectId hostPort domain s = (Returned serverName, s') \<longrightarrow>
      serverName = (case domain of
                      None \<Rightarrow> ''project-'' @ to_string projectId @ ''.local''
                    | Some h \<Rightarrow> if h = [] then ''project-'' @ to_string projectId @ ''.local'' else h)) \<and>
   (deploy env (Num 7) userId commitMessage s0 = (Returned r, s1) \<longrightarrow>
      r_url r = Some ''http://project-7.local'' \<and>
      (\<exists>d\<in>set (deployments s1). r_deploymentId r = Some (d_id d) \<and> status d = Running \<and>
          url d = Some ''http://project-7.local'') \<and>
      (\<exists>k containerName port. length (trace s0) \<le> k \<and> k < length (trace s1) \<and>
          trace s1 ! k = Exec RunContainer
            (''docker run -d --name '' @ containerName @ '' -p 10007:'' @ port
             @ '' --restart unless-stopped criacode-7:latest'') None None))"
proof (rule conjI; rule impI)
  assume "configureNginx env projectId hostPort domain s = (Returned serverName, s')"
  from configureNginx_Returned(1) [OF this]
  show "serverName = (case domain of
                      None \<Rightarrow> ''project-'' @ to_string projectId @ ''.local''
                    | Some h \<Rightarrow> if h = [] then ''project-'' @ to_string projectId @ ''.local'' else h)"
    by (cases domain) (simp_all add: str_or_def)
next
  assume run: "deploy env (Num 7) userId commitMessage s0 = (Returned r, s1)"
  have seven: "to_string (Num 7) = ''7''" "to_string (hostPort_of (Num 7)) = ''10007''"
    by (simp_all add: hostPort_of_def show_int_def show_nat.simps digit_char_def)
  define d where "d = next_deployment_id (deployments s0)"
  from deploy_Returned [OF run] obtain p project s
    where steps: "deploy_steps env (Num 7) p project d (clock env (clock_reads s0)) s = (Returned r, s1)"
      and s: "deployments s = deployments s0 @
                [\<lparr>d_id = d, d_project_id = Some p, status = Building, container_id = None,
                  container_name = None, url = None, commit_message = Some commitMessage,
                  build_duration = None\<rparr>]"
        "trace s = trace s0"
    unfolding d_def by auto
  from deploy_steps_Returned [OF steps] obtain c n b k
    where r0: "r = \<lparr>success = True, r_deploymentId = Some d,
                 r_url = Some (''http://project-'' @ to_string (Num 7) @ ''.local''),
                 r_buildDuration = Some b, r_error = None\<rparr>"
      and dep0: "deployments s1 =
                  map (set_superseded p d)
                    (map (set_running d c n (''http://project-'' @ to_string (Num 7) @ ''.local'') b)
                       (deployments s))"
      and k0: "length (trace s) \<le> k" "k < length (trace s1)"
        "trace s1 ! k = Exec RunContainer
             (''docker run -d --name '' @ n @ '' -p '' @ to_string (hostPort_of (Num 7))
              @ '':'' @ show_int (num_or (p_port project) 3000) @ '' --restart unless-stopped ''
              @ ''criacode-'' @ to_string (Num 7) @ '':latest'') None None"
    by blast
  have r: "r = \<lparr>success = True, r_deploymentId = Some d,
                 r_url = Some ''http://project-7.local'', r_buildDuration = Some b, r_error = None\<rparr>"
    using r0 unfolding seven by simp
  have dep: "deployments s1 =
                  map (set_superseded p d)
                    (map (set_running d c n ''http://project-7.local'' b) (deployments s))"
    using dep0 unfolding seven by simp
  have k: "length (trace s) \<le> k" "k < length (trace s1)"
        "trace s1 ! k = Exec RunContainer
             (''docker run -d --name '' @ n @ '' -p 10007:'' @ show_int (num_or (p_port project) 3000)
              @ '' --restart unless-stopped criacode-7:latest'') None None"
    using k0 unfolding seven by simp_all
  show "r_url r = Some ''http://project-7.local'' \<and>
      (\<exists>d\<in>set (deployments s1). r_deploymentId r = Some (d_id d) \<and> status d = Running \<and>
          url d = Some ''http://project-7.local'') \<and>
      (\<exists>k containerName port. length (trace s0) \<le> k \<and> k < length (trace s1) \<and>
          trace s1 ! k = Exec RunContainer
            (''docker run -d --name '' @ containerName @ '' -p 10007:'' @ port
             @ '' --restart unless-stopped criacode-7:latest'') None None)"
  proof (intro conjI)
    show "r_url r = Some ''http://project-7.local''" using r by simp
    let ?new = "set_superseded p d (set_running d c n ''http://project-7.local'' b
       \<lparr>d_id = d, d_project_id = Some p, status = Building, container_id = None,
         container_name = None, url = None, commit_message = Some commitMessage,
         build_duration = None\<rparr>)"
    have "?new \<in> set (deployments s1)" using dep s(1) by simp
    moreover have "d_id ?new = d" "status ?new = Running" "url ?new = Some ''http://project-7.local''"
      by (simp_all add: set_running_def set_superseded_def)
    ultimately show "\<exists>d\<in>set (deployments s1). r_deploymentId r = Some (d_id d) \<and>
        status d = Running \<and> url d = Some ''http://project-7.local''"
      using r by (intro bexI [of _ ?new]) simp_all
    show "\<exists>k containerName port. length (trace s0) \<le> k \<and> k < length (trace s1) \<and>
          trace s1 ! k = Exec RunContainer
            (''docker run -d --name '' @ containerName @ '' -p 10007:'' @ port
             @ '' --restart unless-stopped criacode-7:latest'') None None"
      using k s(2) by (intro exI [of _ k] exI [of _ n]
          exI [of _ "show_int (num_or (p_port project) 3000)"]) simp
  qed
qed

lemma hostname_policy_example:
  "fst (configureNginx env_ok (Num 7) (Num 10007) (Some ''app.example.com'') (world7 ''react''))
     = Returned ''app.example.com'' \<and>
   fst (configureNginx env_ok (Num 7) (Num 10007) None (world7 ''react''))
     = Returned ''project-7.local'' \<and>
   map url (deployments (snd (deploy env_ok (Num 7) 1 ''Deploy manual'' (world7 ''react''))))
     = [Some ''http://project-7.local''] \<and>
   map status (deployments (snd (deploy env_ok (Num 7) 1 ''Deploy manual'' (world7 ''react''))))
     = [Running]"
proof -
  let ?run = "deploy env_ok (Num 7) 1 ''Deploy manual'' (world7 ''react'')"
  let ?c1 = "configureNginx env_ok (Num 7) (Num 10007) (Some ''app.example.com'') (world7 ''react'')"
  let ?c2 = "configureNginx env_ok (Num 7) (Num 10007) None (world7 ''react'')"
  have c1: "fst ?c1 = Returned ''app.example.com''" and c2: "fst ?c2 = Returned ''project-7.local''"
    by (simp_all add: run_defs example_defs show_int_def show_nat.simps digit_char_def)
  have r1: "?c1 = (Returned ''app.example.com'', snd ?c1)" using c1 by (metis prod.collapse)
  have r2: "?c2 = (Returned ''project-7.local'', snd ?c2)" using c2 by (metis prod.collapse)
  have res: "fst ?run = Returned \<lparr>success = True, r_deploymentId = Some 1,
      r_url = Some ''http://project-7.local'', r_buildDuration = Some 13, r_error = None\<rparr>"
    by (simp add: run_defs example_defs show_int_def show_nat.simps digit_char_def)
  then have run: "?run = (Returned \<lparr>success = True, r_deploymentId = Some 1,
      r_url = Some ''http://project-7.local'', r_buildDuration = Some 13, r_error = None\<rparr>, snd ?run)"
    by (metis prod.collapse)
  have st: "map status (deployments (snd ?run)) = [Running]"
    and u: "map url (deployments (snd ?run)) = [Some ''http://project-7.local'']"
    by (simp_all add: run_defs example_defs show_int_def show_nat.simps digit_char_def)
  from hostname_policy [THEN conjunct1, rule_format, OF r1]
    hostname_policy [THEN conjunct1, rule_format, OF r2]
    hostname_policy [THEN conjunct2, rule_format, OF run]
    c1 c2 st u
  show ?thesis by simp
qed

text \<open>
  C8 (the code at project id 7 as the deploy route passes it).  The route hands the id to
  \<open>deploy\<close> as the string \<open>'7'\<close>.  With the files \<open>index.html\<close> and \<open>app.js\<close>, every command
  succeeding and no domain bound, the deploy returns its success record, the deployment is
  \<open>running\<close> and its URL is \<open>http://project-7.local\<close>; but the one container it starts is
  published on host port \<open>100007\<close> (\<open>10000 + '7'\<close>), not on 10007.
\<close>

theorem deploy_route_id_scenario:
  "fst (deploy env_ok (Str ''7'') 1 ''Deploy manual'' (world7 ''react'')) =
     Returned \<lparr>success = True, r_deploymentId = Some 1, r_url = Some ''http://project-7.local'',
                r_buildDuration = Some 13, r_error = None\<rparr> \<and>
   map status (deployments (snd (deploy env_ok (Str ''7'') 1 ''Deploy manual'' (world7 ''react''))))
     = [Running] \<and>
   map url (deployments (snd (deploy env_ok (Str ''7'') 1 ''Deploy manual'' (world7 ''react''))))
     = [Some ''http://project-7.local''] \<and>
   map stage_of (trace (snd (deploy env_ok (Str ''7'') 1 ''Deploy manual'' (world7 ''react''))))
     = [None, None, None, None, None, Some Install, Some Build, None, None, Some ImageBuild,
        Some RunContainer, None, None, None, Some ProxyTest, Some ProxyReload] \<and>
   trace (snd (deploy env_ok (Str ''7'') 1 ''Deploy manual'' (world7 ''react''))) ! 10 =
     Exec RunContainer
       ''docker run -d --name criacode-project-7-7000 -p 100007:3000 --restart unless-stopped criacode-7:latest''
       None None \<and>
   hostPort_of (Str ''7'') \<noteq> Num (10000 + 7)"
  by (simp add: run_defs example_defs show_int_def show_nat.simps digit_char_def)

section \<open>A deploy that fails\<close>

text \<open>
  \<open>deploy\<close> never returns a failure record: it either returns a success record or rejects
  with the \<open>ReferenceError\<close> of its \<open>catch\<close> block.
\<close>

lemma deploy_Returned_success:
  assumes "deploy env projectId userId commitMessage s = (Returned r, s')"
  shows "success r"
proof -
  from deploy_Returned [OF assms] obtain p project d t s0
    where "deploy_steps env projectId p project d t s0 = (Returned r, s')"
    by blast
  from deploy_steps_Returned [OF this] show ?thesis by auto
qed

lemma deploy_Thrown:
  assumes "deploy env projectId userId commitMessage s = (Thrown e, s')"
  shows "e = ReferenceError ''deployment is not defined''"
  using assms
  by (auto simp: deploy_def bind_cases try_catch_cases date_now_def deploy_catch_def deployment_id_in_catch_def throw_def)

text \<open>
  C2 (the code at a failing build).  Project 7 is a \<open>react\<close> project and \<open>npm install\<close>
  exits non-zero.  The build step logs the error and rethrows; the \<open>catch\<close> block of
  \<open>deploy\<close> then raises a \<open>ReferenceError\<close> before its \<open>UPDATE\<close>: \<open>deploy\<close> rejects, and the
  deployment it created keeps the status \<open>building\<close>.
\<close>

theorem deploy_failure_leaves_building:
  "fst (deploy env_install_fails (Num 7) 1 ''Deploy manual'' (world7 ''react''))
     = Thrown (ReferenceError ''deployment is not defined'') \<and>
   map status (deployments (snd (deploy env_install_fails (Num 7) 1 ''Deploy manual'' (world7 ''react''))))
     = [Building] \<and>
   map l_type (build_logs (snd (deploy env_install_fails (Num 7) 1 ''Deploy manual'' (world7 ''react''))))
     = [LogInfo, LogInfo, LogInfo, LogError]"
  by (simp add: run_defs example_defs)

section \<open>A project without files\<close>

text \<open>
  C4 (as stated, at project 7 without files): the deployment does not become \<open>failed\<close>, it
  keeps the status \<open>building\<close>, and the only log line is the initial \<open>info\<close> line.
\<close>

theorem deploy_empty_project_counterexample:
  "map status (deployments (snd (deploy env_ok (Num 7) 1 ''Deploy manual'' world7_empty))) = [Building] \<and>
   map l_type (build_logs (snd (deploy env_ok (Num 7) 1 ''Deploy manual'' world7_empty))) = [LogInfo]"
  by (simp add: run_defs example_defs)

text \<open>
  C4 (amended).  When the project has no files, the pipeline stops at the file-loading
  step: \<open>deploy\<close> performs no file operation and no command, does not return a success, the
  deployment row it created does not have the status \<open>running\<close>, and the only log line
  written is the initial \<open>info\<close> line (no \<open>error\<close> line).
\<close>

theorem deploy_empty_project:
  assumes p: "pg_int env projectId = Inr p"
    and project: "find (\<lambda>r. p_id r = p \<and> p_user_id r = Some userId) (projects s) = Some project"
    and empty: "[f \<leftarrow> files s. f_project_id f = Some p] = []"
    and run: "deploy env projectId userId commitMessage s = (r, s')"
  shows "trace s' = trace s \<and>
         build_logs s' = build_logs s @
           [\<lparr>l_deployment_id = next_deployment_id (deployments s), l_type = LogInfo,
             l_message = msg_starting_deploy\<rparr>] \<and>
         (\<exists>d. deployments s' = deployments s @ [d] \<and> d_id d = next_deployment_id (deployments s) \<and>
              d_project_id d = Some p \<and> status d \<noteq> Running) \<and>
         (\<forall>res. r = Returned res \<longrightarrow> \<not> success res)"
  using run p project empty
  by (auto simp: deploy_def deploy_steps_def bind_def try_catch_def date_now_def sql_int_def
      query_def ret_def throw_def insert_deployment_def addBuildLog_run deploy_catch_def deployment_id_in_catch_def Let_def)

theorem deploy_empty_project_witness:
  "trace (snd (deploy env_ok (Num 7) 1 ''Deploy manual'' world7_empty)) = [] \<and>
   map l_type (build_logs (snd (deploy env_ok (Num 7) 1 ''Deploy manual'' world7_empty))) = [LogInfo]"
proof -
  let ?run = "deploy env_ok (Num 7) 1 ''Deploy manual'' world7_empty"
  have p: "pg_int env_ok (Num 7) = Inr 7"
    by (simp add: example_defs)
  have project: "find (\<lambda>r. p_id r = 7 \<and> p_user_id r = Some 1) (projects world7_empty)
                   = Some (project7 ''react'')"
    by (simp add: example_defs)
  have empty: "[f \<leftarrow> files world7_empty. f_project_id f = Some 7] = []"
    by (simp add: example_defs)
  have run: "?run = (fst ?run, snd ?run)" by simp
  have t0: "trace world7_empty = []" and l0: "build_logs world7_empty = []"
    by (simp_all add: example_defs)
  from deploy_empty_project [OF p project empty run] t0 l0 show ?thesis by simp
qed

section \<open>Which commands a deploy runs\<close>

lemma emits_only_quiet: "quiet P L m \<Longrightarrow> emits_only P m"
  by (simp add: quiet_def emits_only_def)

lemma emits_only_modify: "(\<And>s. trace (f s) = trace s) \<Longrightarrow> emits_only P (modify f)"
  by (simp add: emits_only_def modify_def ext_refl)

lemma emits_only_bind:
  assumes "emits_only P m" and "\<And>x. emits_only P (f x)"
  shows "emits_only P (bind m f)"
  unfolding emits_only_def
proof
  fix s
  obtain r s1 where ms: "m s = (r, s1)" by (cases "m s")
  have m: "ext P (trace s) (trace s1)"
    using assms(1) [unfolded emits_only_def, rule_format, of s] ms by simp
  show "ext P (trace s) (trace (snd (bind m f s)))"
  proof (cases r)
    case (Thrown e)
    then show ?thesis using m ms by (simp add: bind_def)
  next
    case (Returned x)
    have "ext P (trace s1) (trace (snd (f x s1)))"
      using assms(2) [of x, unfolded emits_only_def, rule_format, of s1] .
    with m show ?thesis using ms Returned by (simp add: bind_def ext_trans)
  qed
qed

lemma emits_only_case_prod3:
  "(\<And>a b c. emits_only P (f a b c)) \<Longrightarrow> emits_only P (case x of (a, b, c) \<Rightarrow> f a b c)"
  by (cases x) auto

text \<open>The state in which \<open>deploy\<close> enters the pipeline once it has found the project.\<close>

lemma deploy_found:
  assumes run: "deploy env projectId userId commitMessage s = (r, s')"
    and p: "pg_int env projectId = Inr p"
    and project: "find (\<lambda>r. p_id r = p \<and> p_user_id r = Some userId) (projects s) = Some project"
  shows "\<exists>r0 s0. deploy_steps env projectId p project (next_deployment_id (deployments s))
                   (clock env (clock_reads s)) s0 = (r0, s') \<and>
                 trace s0 = trace s \<and> build_logs s0 = build_logs s \<and>
                 r = (case r0 of Returned x \<Rightarrow> Returned x
                      | Thrown e \<Rightarrow> Thrown (ReferenceError ''deployment is not defined''))"
proof -
  define s0 where "s0 = s\<lparr>clock_reads := Suc (clock_reads s),
      deployments := deployments s @
        [\<lparr>d_id = next_deployment_id (deployments s), d_project_id = Some p, status = Building,
          container_id = None, container_name = None, url = None,
          commit_message = Some commitMessage, build_duration = None\<rparr>]\<rparr>"
  obtain r0 s1 where st: "deploy_steps env projectId p project (next_deployment_id (deployments s))
                   (clock env (clock_reads s)) s0 = (r0, s1)"
    by (cases "deploy_steps env projectId p project (next_deployment_id (deployments s))
                   (clock env (clock_reads s)) s0")
  have "deploy env projectId userId commitMessage s =
          (case r0 of Returned x \<Rightarrow> Returned x
           | Thrown e \<Rightarrow> Thrown (ReferenceError ''deployment is not defined''), s1)"
    using p project st unfolding s0_def
    by (cases r0)
      (simp_all add: deploy_def bind_def try_catch_def date_now_def sql_int_def query_def ret_def
        throw_def insert_deployment_def deploy_catch_def deployment_id_in_catch_def Let_def)
  with run have "s' = s1" and "r = (case r0 of Returned x \<Rightarrow> Returned x
           | Thrown e \<Rightarrow> Thrown (ReferenceError ''deployment is not defined''))"
    by simp_all
  moreover have "trace s0 = trace s" "build_logs s0 = build_logs s"
    by (simp_all add: s0_def)
  ultimately show ?thesis using st by blast
qed

lemma emits_only_if:
  "emits_only P a \<Longrightarrow> emits_only P b \<Longrightarrow> emits_only P (if c then a else b)"
  by simp

lemma emits_only_atoms:
  "emits_only P (ret x)" "emits_only P (throw e)" "emits_only P (query f)"
  "emits_only P (date_now env)" "emits_only P (addBuildLog env d ty m)"
  by (rule emits_only_quiet [where L = "\<lambda>_. True"],
      simp add: quiet_ret quiet_throw quiet_query quiet_date_now quiet_addBuildLog)+

lemma emits_only_saveProjectFiles:
  "(\<And>e. stage_of e = None \<Longrightarrow> P e) \<Longrightarrow> emits_only P (saveProjectFiles env projectId fs)"
  by (rule emits_only_quiet [where L = "\<lambda>_. True"]) (simp add: quiet_saveProjectFiles)

lemma emits_only_createContainer:
  "(\<And>e. stage_of e \<in> {None, Some ImageBuild, Some StopOld, Some RemoveOld, Some RunContainer}
       \<Longrightarrow> P e) \<Longrightarrow> emits_only P (createContainer env projectId d project dir)"
  by (rule emits_only_quiet [where L = "\<lambda>_. True"]) (rule quiet_createContainer, simp_all)

lemma emits_only_configureNginx:
  "(\<And>e. stage_of e \<in> {None, Some ProxyTest, Some ProxyReload} \<Longrightarrow> P e)
     \<Longrightarrow> emits_only P (configureNginx env projectId hostPort domain)"
  by (rule emits_only_quiet [where L = "\<lambda>_. True"]) (rule quiet_configureNginx, simp_all)

lemma build_project_node:
  "p_framework project = Some ''node'' \<Longrightarrow> build_project env dir d project = ret ()"
  by (simp add: build_project_def)

lemma emits_only_deploy_steps_node:
  assumes "p_framework project = Some ''node''"
  shows "emits_only (\<lambda>e. stage_of e \<noteq> Some Install \<and> stage_of e \<noteq> Some Build)
           (deploy_steps env projectId p project d t)"
  unfolding deploy_steps_def build_project_node [OF assms] Let_def
  by (intro emits_only_bind emits_only_if emits_only_case_prod3 emits_only_modify emits_only_atoms
      emits_only_saveProjectFiles emits_only_createContainer emits_only_configureNginx)
    auto

text \<open>
  C7 (as stated, at project 7 with framework \<open>node\<close>): the deploy succeeds and has run
  neither a build command nor an install command.
\<close>

theorem deploy_node_counterexample:
  "map stage_of (trace (snd (deploy env_ok (Num 7) 1 ''Deploy manual'' (world7 ''node''))))
     = [None, None, None, None, None, None, Some ImageBuild, Some RunContainer,
        None, None, None, Some ProxyTest, Some ProxyReload] \<and>
   map status (deployments (snd (deploy env_ok (Num 7) 1 ''Deploy manual'' (world7 ''node''))))
     = [Running]"
  by (simp add: run_defs example_defs)

text \<open>
  C7 (amended).  For a project whose framework is \<open>node\<close>, a deploy runs neither the
  install command nor the build command: none of its effects comes from the install or the
  build call site.  The only install is the line \<open>RUN npm install --production\<close> of the image
  recipe that \<open>createDockerfile\<close> writes.
\<close>

theorem deploy_node_runs_no_install:
  assumes p: "pg_int env projectId = Inr p"
    and project: "find (\<lambda>r. p_id r = p \<and> p_user_id r = Some userId) (projects s) = Some project"
    and node: "p_framework project = Some ''node''"
    and run: "deploy env projectId userId commitMessage s = (r, s')"
  shows "(\<forall>k. length (trace s) \<le> k \<and> k < length (trace s') \<longrightarrow>
              stage_of (trace s' ! k) \<noteq> Some Install \<and> stage_of (trace s' ! k) \<noteq> Some Build) \<and>
         snd (createDockerfile env dir project s1) =
           s1\<lparr>trace := trace s1 @ [WriteFile (Join dir ''Dockerfile'') (dockerfile_node project)]\<rparr>"
proof
  from deploy_found [OF run p project] obtain r0 s0
    where st: "deploy_steps env projectId p project (next_deployment_id (deployments s))
                 (clock env (clock_reads s)) s0 = (r0, s')"
      and s0: "trace s0 = trace s"
    by blast
  from emits_only_deploy_steps_node [OF node, of env projectId p
      "next_deployment_id (deployments s)" "clock env (clock_reads s)",
      unfolded emits_only_def, rule_format, of s0] st s0
  have "ext (\<lambda>e. stage_of e \<noteq> Some Install \<and> stage_of e \<noteq> Some Build) (trace s) (trace s')"
    by simp
  then show "\<forall>k. length (trace s) \<le> k \<and> k < length (trace s') \<longrightarrow>
              stage_of (trace s' ! k) \<noteq> Some Install \<and> stage_of (trace s' ! k) \<noteq> Some Build"
    using ext_nth_new by blast
  show "snd (createDockerfile env dir project s1) =
           s1\<lparr>trace := trace s1 @ [WriteFile (Join dir ''Dockerfile'') (dockerfile_node project)]\<rparr>"
    using node
    by (simp add: createDockerfile_def bind_def ret_def perform_def split: sum.splits)
qed

theorem deploy_node_runs_no_install_witness:
  "p_framework (project7 ''node'') = Some ''node'' \<and>
   length (trace (snd (deploy env_ok (Num 7) 1 ''Deploy manual'' (world7 ''node'')))) = 13 \<and>
   stage_of (trace (snd (deploy env_ok (Num 7) 1 ''Deploy manual'' (world7 ''node''))) ! 6)
     = Some ImageBuild"
proof -
  let ?run = "deploy env_ok (Num 7) 1 ''Deploy manual'' (world7 ''node'')"
  have p: "pg_int env_ok (Num 7) = Inr 7"
    by (simp add: example_defs)
  have project: "find (\<lambda>r. p_id r = 7 \<and> p_user_id r = Some 1) (projects (world7 ''node''))
                   = Some (project7 ''node'')"
    by (simp add: example_defs)
  have node: "p_framework (project7 ''node'') = Some ''node''"
    by (simp add: example_defs)
  have run: "?run = (fst ?run, snd ?run)" by simp
  have len: "length (trace (snd ?run)) = 13"
    and six: "stage_of (trace (snd ?run) ! 6) = Some ImageBuild"
    by (simp_all add: run_defs example_defs)
  from deploy_node_runs_no_install [OF p project node run] node len six show ?thesis by simp
qed

section \<open>A failing install or build command\<close>

lemma build_failure_old:
  assumes "ext P xs ys" and "i < length xs"
  shows "build_failure env ys i detail \<longleftrightarrow> build_failure env xs i detail"
  using ext_nth_old [OF assms] ext_length [OF assms(1)] assms(2)
  by (auto simp: build_failure_def)

lemma fails_lastI:
  assumes "\<And>s. ext (\<lambda>_. True) (trace s) (trace (snd (m s)))"
    and "\<And>s i detail. length (trace s) \<le> i \<Longrightarrow> build_failure env (trace (snd (m s))) i detail
           \<Longrightarrow> Suc i = length (trace (snd (m s))) \<and> (\<exists>e. fst (m s) = Thrown e \<and> Q detail e (snd (m s)))"
  shows "fails_last env Q m"
  unfolding fails_last_def using assms by blast

lemma fails_lastD:
  assumes "fails_last env Q m" and "m s = (r, s')"
  shows "ext (\<lambda>_. True) (trace s) (trace s')"
    and "length (trace s) \<le> i \<Longrightarrow> build_failure env (trace s') i detail
           \<Longrightarrow> Suc i = length (trace s') \<and> (\<exists>e. r = Thrown e \<and> Q detail e s')"
  using assms(1) [unfolded fails_last_def, rule_format, of s] assms(2) by auto

lemma fails_last_silent:
  assumes "\<And>s. trace (snd (m s)) = trace s"
  shows "fails_last env Q m"
  by (rule fails_lastI) (auto simp: assms ext_refl build_failure_def)

lemma fails_last_quiet:
  assumes q: "quiet P L m"
    and P: "\<And>e. P e \<Longrightarrow> stage_of e \<noteq> Some Install \<and> stage_of e \<noteq> Some Build"
  shows "fails_last env Q m"
proof (rule fails_lastI)
  fix s
  have e: "ext P (trace s) (trace (snd (m s)))"
    using q unfolding quiet_def by blast
  then show "ext (\<lambda>_. True) (trace s) (trace (snd (m s)))"
    by (rule ext_mono) simp
  fix i detail
  assume "length (trace s) \<le> i" and f: "build_failure env (trace (snd (m s))) i detail"
  then have "P (trace (snd (m s)) ! i)"
    using ext_nth_new [OF e] by (simp add: build_failure_def)
  with P f have False by (auto simp: build_failure_def)
  then show "Suc i = length (trace (snd (m s))) \<and> (\<exists>e. fst (m s) = Thrown e \<and> Q detail e (snd (m s)))"
    by simp
qed

lemma fails_last_bind:
  assumes m: "fails_last env Q m" and f: "\<And>x. fails_last env Q (f x)"
  shows "fails_last env Q (bind m f)"
proof (rule fails_lastI)
  fix s
  obtain r s1 where ms: "m s = (r, s1)" by (cases "m s")
  note m1 = fails_lastD [OF m ms]
  show "ext (\<lambda>_. True) (trace s) (trace (snd (bind m f s)))"
  proof (cases r)
    case (Thrown e)
    then show ?thesis using ms m1(1) by (simp add: bind_def)
  next
    case (Returned x)
    obtain r2 s2 where fs: "f x s1 = (r2, s2)" by (cases "f x s1")
    from fails_lastD(1) [OF f fs] m1(1) show ?thesis
      using ms Returned fs by (simp add: bind_def ext_trans)
  qed
  fix i detail
  assume i: "length (trace s) \<le> i" and bf: "build_failure env (trace (snd (bind m f s))) i detail"
  show "Suc i = length (trace (snd (bind m f s))) \<and>
        (\<exists>e. fst (bind m f s) = Thrown e \<and> Q detail e (snd (bind m f s)))"
  proof (cases r)
    case (Thrown e)
    then have b: "bind m f s = (Thrown e, s1)" using ms by (simp add: bind_def)
    from m1(2) [OF i] bf Thrown show ?thesis unfolding b by simp
  next
    case (Returned x)
    obtain r2 s2 where fs: "f x s1 = (r2, s2)" by (cases "f x s1")
    have b: "bind m f s = (r2, s2)" using ms Returned fs by (simp add: bind_def)
    note f1 = fails_lastD [OF f fs]
    show ?thesis
    proof (cases "i < length (trace s1)")
      case True
      then have "build_failure env (trace s1) i detail"
        using bf build_failure_old [OF f1(1) True] unfolding b by simp
      from m1(2) [OF i this] Returned show ?thesis by simp
    next
      case False
      then have "length (trace s1) \<le> i" by simp
      from f1(2) [OF this] bf show ?thesis unfolding b by simp
    qed
  qed
qed

lemma fails_last_try_catch:
  assumes m: "fails_last env Q1 m"
    and h: "\<And>e s1. trace (snd (h e s1)) = trace s1 \<and>
              (\<forall>detail. Q1 detail e s1 \<longrightarrow>
                 (\<exists>e'. fst (h e s1) = Thrown e' \<and> Q detail e' (snd (h e s1))))"
  shows "fails_last env Q (try_catch m h)"
proof (rule fails_lastI)
  fix s
  obtain r s1 where ms: "m s = (r, s1)" by (cases "m s")
  note m1 = fails_lastD [OF m ms]
  show "ext (\<lambda>_. True) (trace s) (trace (snd (try_catch m h s)))"
    using ms m1(1) h by (cases r) (simp_all add: try_catch_def)
  fix i detail
  assume i: "length (trace s) \<le> i"
    and bf: "build_failure env (trace (snd (try_catch m h s))) i detail"
  show "Suc i = length (trace (snd (try_catch m h s))) \<and>
        (\<exists>e. fst (try_catch m h s) = Thrown e \<and> Q detail e (snd (try_catch m h s)))"
  proof (cases r)
    case (Returned x)
    then have b: "try_catch m h s = (Returned x, s1)" using ms by (simp add: try_catch_def)
    from m1(2) [OF i] bf Returned show ?thesis unfolding b by simp
  next
    case (Thrown e)
    have b: "try_catch m h s = h e s1" using ms Thrown by (simp add: try_catch_def)
    have tr: "trace (snd (h e s1)) = trace s1" using h by blast
    from m1(2) [OF i] bf have "Suc i = length (trace s1)" "Q1 detail e s1"
      unfolding b tr using Thrown by auto
    with h [of e s1] show ?thesis unfolding b by auto
  qed
qed

lemma fails_last_if:
  "fails_last env Q a \<Longrightarrow> fails_last env Q b \<Longrightarrow> fails_last env Q (if c then a else b)"
  by simp

lemma fails_last_case_prod3:
  "(\<And>a b c. fails_last env Q (f a b c)) \<Longrightarrow> fails_last env Q (case x of (a, b, c) \<Rightarrow> f a b c)"
  by (cases x) auto

lemma fails_last_ret: "fails_last env Q (ret x)"
  by (rule fails_last_silent) (simp add: ret_def)

lemma fails_last_throw: "fails_last env Q (throw e)"
  by (rule fails_last_silent) (simp add: throw_def)

lemma fails_last_query: "fails_last env Q (query f)"
  by (rule fails_last_silent) (simp add: query_def)

lemma fails_last_date_now: "fails_last env Q (date_now env')"
  by (rule fails_last_silent) (simp add: date_now_def)

lemma fails_last_addBuildLog: "fails_last env Q (addBuildLog env' d ty msg)"
  by (rule fails_last_silent) (simp add: addBuildLog_run)

lemma fails_last_modify: "(\<And>s. trace (g s) = trace s) \<Longrightarrow> fails_last env Q (modify g)"
  by (rule fails_last_silent) (simp add: modify_def)

lemmas fails_last_atoms = fails_last_ret fails_last_throw fails_last_query fails_last_date_now
  fails_last_addBuildLog fails_last_modify

lemma fails_last_execPromise:
  assumes "\<And>detail s. Q detail (Error detail) (s\<lparr>trace := trace s @ [Exec st c d t]\<rparr>)"
  shows "fails_last env Q (execPromise env st c d t)"
proof (rule fails_lastI)
  fix s
  show "ext (\<lambda>_. True) (trace s) (trace (snd (execPromise env st c d t s)))"
    by (simp add: execPromise_def perform_def ext_snoc split: sum.splits)
  fix i detail
  assume i: "length (trace s) \<le> i"
    and bf: "build_failure env (trace (snd (execPromise env st c d t s))) i detail"
  have tr: "trace (snd (execPromise env st c d t s)) = trace s @ [Exec st c d t]"
    by (simp add: execPromise_def perform_def split: sum.splits)
  from bf i have "i = length (trace s)" and "respond env (length (trace s)) (Exec st c d t) = Inl detail"
    unfolding tr by (auto simp: build_failure_def nth_append less_Suc_eq)
  then show "Suc i = length (trace (snd (execPromise env st c d t s))) \<and>
        (\<exists>e. fst (execPromise env st c d t s) = Thrown e \<and> Q detail e (snd (execPromise env st c d t s)))"
    using assms by (simp add: execPromise_def perform_def)
qed

text \<open>A failed install or build command is logged by the build step, which then rejects.\<close>

lemma fails_last_buildReactProject:
  "fails_last env
     (\<lambda>detail e s. build_logs s \<noteq> [] \<and> last (build_logs s) =
        \<lparr>l_deployment_id = d, l_type = LogError, l_message = msg_build_error @ detail\<rparr>)
     (buildReactProject env dir d project)"
  unfolding buildReactProject_def
  by (rule fails_last_try_catch [where ?Q1.0 = "\<lambda>detail e s. e = Error detail"])
    (intro fails_last_bind fails_last_atoms fails_last_execPromise,
      auto simp: bind_def addBuildLog_run throw_def)

lemma fails_last_buildNextProject:
  "fails_last env
     (\<lambda>detail e s. build_logs s \<noteq> [] \<and> last (build_logs s) =
        \<lparr>l_deployment_id = d, l_type = LogError, l_message = msg_build_error @ detail\<rparr>)
     (buildNextProject env dir d project)"
  unfolding buildNextProject_def
  by (rule fails_last_try_catch [where ?Q1.0 = "\<lambda>detail e s. e = Error detail"])
    (intro fails_last_bind fails_last_atoms fails_last_execPromise,
      auto simp: bind_def addBuildLog_run throw_def)

lemma fails_last_build_project:
  "fails_last env
     (\<lambda>detail e s. build_logs s \<noteq> [] \<and> last (build_logs s) =
        \<lparr>l_deployment_id = d, l_type = LogError, l_message = msg_build_error @ detail\<rparr>)
     (build_project env dir d project)"
  unfolding build_project_def
  by (intro fails_last_if fails_last_bind fails_last_atoms fails_last_buildReactProject
      fails_last_buildNextProject)

lemma fails_last_deploy_steps:
  "fails_last env
     (\<lambda>detail e s. build_logs s \<noteq> [] \<and> last (build_logs s) =
        \<lparr>l_deployment_id = d, l_type = LogError, l_message = msg_build_error @ detail\<rparr>)
     (deploy_steps env projectId p project d t)"
  unfolding deploy_steps_def Let_def
  by (intro fails_last_bind fails_last_if fails_last_case_prod3 fails_last_atoms
      fails_last_build_project
      fails_last_quiet [OF quiet_saveProjectFiles [where P = "\<lambda>e. stage_of e = None" and L = "\<lambda>_. True"]]
      fails_last_quiet [OF quiet_createContainer
        [where P = "\<lambda>e. stage_of e \<in> {None, Some ImageBuild, Some StopOld, Some RemoveOld, Some RunContainer}"
           and L = "\<lambda>_. True"]]
      fails_last_quiet [OF quiet_configureNginx
        [where P = "\<lambda>e. stage_of e \<in> {None, Some ProxyTest, Some ProxyReload}" and L = "\<lambda>_. True"]])
    auto

lemma deploy_without_project:
  assumes "deploy env projectId userId commitMessage s = (r, s')"
    and "(\<exists>m. pg_int env projectId = Inl m) \<or>
         (\<exists>p. pg_int env projectId = Inr p \<and>
              find (\<lambda>r. p_id r = p \<and> p_user_id r = Some userId) (projects s) = None)"
  shows "trace s' = trace s"
  using assms
  by (auto simp: deploy_def bind_def try_catch_def date_now_def sql_int_def query_def throw_def
      ret_def deploy_catch_def deployment_id_in_catch_def)

text \<open>
  C5.  When, in a run of \<open>deploy\<close>, the install command or the build command fails with
  the message \<open>detail\<close>, an \<open>error\<close> log line with that detail is recorded for the new
  deployment (it is the last log line), and the failed command is the last effect of the
  run: no \<open>docker run\<close> and no proxy reload comes after it.
\<close>

theorem build_failure_stops_pipeline:
  assumes run: "deploy env projectId userId commitMessage s = (r, s')"
    and i: "length (trace s) \<le> i"
    and failure: "build_failure env (trace s') i detail"
  shows "\<lparr>l_deployment_id = next_deployment_id (deployments s), l_type = LogError,
           l_message = msg_build_error @ detail\<rparr> \<in> set (build_logs s') \<and>
         last (build_logs s') =
           \<lparr>l_deployment_id = next_deployment_id (deployments s), l_type = LogError,
             l_message = msg_build_error @ detail\<rparr> \<and>
         Suc i = length (trace s') \<and>
         (\<forall>j. i < j \<and> j < length (trace s') \<longrightarrow>
              stage_of (trace s' ! j) \<noteq> Some RunContainer \<and>
              stage_of (trace s' ! j) \<noteq> Some ProxyReload)"
proof -
  have grown: "length (trace s) < length (trace s')"
    using i failure by (simp add: build_failure_def)
  obtain p project where p: "pg_int env projectId = Inr p"
    and project: "find (\<lambda>r. p_id r = p \<and> p_user_id r = Some userId) (projects s) = Some project"
  proof (cases "pg_int env projectId")
    case (Inl m)
    with deploy_without_project [OF run] grown show ?thesis by auto
  next
    case (Inr p)
    show ?thesis
    proof (cases "find (\<lambda>r. p_id r = p \<and> p_user_id r = Some userId) (projects s)")
      case None
      with deploy_without_project [OF run] Inr grown show ?thesis by auto
    next
      case (Some project)
      with Inr that show ?thesis by blast
    qed
  qed
  from deploy_found [OF run p project] obtain r0 s0
    where st: "deploy_steps env projectId p project (next_deployment_id (deployments s))
                 (clock env (clock_reads s)) s0 = (r0, s')"
      and s0: "trace s0 = trace s"
    by blast
  from fails_lastD(2) [OF fails_last_deploy_steps st, of i detail] i failure s0
  have last: "Suc i = length (trace s')"
    and log: "build_logs s' \<noteq> []"
      "last (build_logs s') = \<lparr>l_deployment_id = next_deployment_id (deployments s),
         l_type = LogError, l_message = msg_build_error @ detail\<rparr>"
    by auto
  from log have "\<lparr>l_deployment_id = next_deployment_id (deployments s), l_type = LogError,
           l_message = msg_build_error @ detail\<rparr> \<in> set (build_logs s')"
    by (metis last_in_set)
  with last log(2) show ?thesis by auto
qed

theorem build_failure_stops_pipeline_witness:
  "build_failure env_install_fails
     (trace (snd (deploy env_install_fails (Num 7) 1 ''Deploy manual'' (world7 ''react''))))
     5 ''Command failed: npm install'' \<and>
   length (trace (snd (deploy env_install_fails (Num 7) 1 ''Deploy manual'' (world7 ''react'')))) = 6 \<and>
   last (build_logs (snd (deploy env_install_fails (Num 7) 1 ''Deploy manual'' (world7 ''react'')))) =
     \<lparr>l_deployment_id = 1, l_type = LogError,
       l_message = msg_build_error @ ''Command failed: npm install''\<rparr>"
proof -
  let ?run = "deploy env_install_fails (Num 7) 1 ''Deploy manual'' (world7 ''react'')"
  have run: "?run = (fst ?run, snd ?run)" by simp
  have i: "length (trace (world7 ''react'')) \<le> 5"
    by (simp add: example_defs)
  have failure: "build_failure env_install_fails (trace (snd ?run)) 5 ''Command failed: npm install''"
    by (simp add: build_failure_def run_defs example_defs)
  have d: "next_deployment_id (deployments (world7 ''react'')) = 1"
    by (simp add: next_deployment_id_def example_defs)
  from build_failure_stops_pipeline [OF run i failure] failure d show ?thesis by simp
qed

section \<open>The image recipe of an unrecognised framework\<close>

lemma createDockerfile_other:
  assumes "p_framework project \<notin> {Some ''react'', Some ''html'', Some ''nextjs'', Some ''node''}"
  shows "createDockerfile env projectDir project s =
           ((case respond env (length (trace s)) (WriteFile (Join projectDir ''Dockerfile'') '''') of
               Inl m \<Rightarrow> Thrown (Error m) | Inr out \<Rightarrow> Returned ()),
            s\<lparr>trace := trace s @ [WriteFile (Join projectDir ''Dockerfile'') '''']\<rparr>)"
  using assms
  by (simp add: createDockerfile_def bind_def ret_def perform_def split: sum.splits)

text \<open>What \<open>createContainer\<close> does once the image build has returned.\<close>

lemma quiet_after_image_build:
  "quiet (\<lambda>_. True) (\<lambda>_. True)
     (bind (stop_previous env projectId d) (\<lambda>_.
      bind (addBuildLog env d LogInfo msg_starting_container) (\<lambda>_.
      bind (execPromise env RunContainer cmd None None) (\<lambda>stdout.
      bind (addBuildLog env d LogInfo (msg_container_created @ containerName)) (\<lambda>_.
      ret (trim stdout, containerName, hostPort))))))"
  by (intro quiet_bind quiet_ret quiet_addBuildLog quiet_execPromise quiet_stop_previous) simp_all

lemma createContainer_builds_image:
  assumes w: "createDockerfile env projectDir project
                (s\<lparr>build_logs := build_logs s @ [\<lparr>l_deployment_id = d, l_type = LogInfo,
                     l_message = msg_creating_container\<rparr>],
                   clock_reads := Suc (Suc (clock_reads s)),
                   emits := emits s @ [\<lparr>e_room = ''deployment-'' @ show_int d, e_type = LogInfo,
                     e_message = msg_creating_container,
                     e_timestamp = clock env (Suc (clock_reads s))\<rparr>]\<rparr>)
              = (Returned (), s1)"
    and tr: "trace s1 = trace s @ [dockerfile]"
    and run: "createContainer env projectId d project projectDir s = (r, s')"
  shows "Suc (length (trace s)) < length (trace s') \<and> trace s' ! length (trace s) = dockerfile \<and>
         trace s' ! Suc (length (trace s)) =
           Exec ImageBuild (''docker build -t criacode-'' @ to_string projectId @ '':latest .'')
             (Some projectDir) (Some 900000)"
proof -
  define b where "b = Exec ImageBuild (''docker build -t criacode-'' @ to_string projectId @ '':latest .'')
             (Some projectDir) (Some 900000)"
  define s2 where "s2 = s1\<lparr>build_logs := build_logs s1 @ [\<lparr>l_deployment_id = d, l_type = LogInfo,
                     l_message = msg_building_image\<rparr>],
                   clock_reads := Suc (clock_reads s1),
                   emits := emits s1 @ [\<lparr>e_room = ''deployment-'' @ show_int d, e_type = LogInfo,
                     e_message = msg_building_image, e_timestamp = clock env (clock_reads s1)\<rparr>],
                   trace := trace s1 @ [b]\<rparr>"
  have t2: "trace s2 = trace s @ [dockerfile, b]"
    by (simp add: s2_def tr)
  have "ext (\<lambda>_. True) (trace s2) (trace s')"
  proof (cases "respond env (length (trace s1)) b")
    case (Inl m)
    have "trace s' = trace s2"
      using w Inl run unfolding b_def s2_def
      by (auto simp: createContainer_def bind_def try_catch_def date_now_def addBuildLog_run Let_def
          execPromise_def perform_def throw_def)
    then show ?thesis by (simp add: ext_refl)
  next
    case (Inr out)
    define rest where "rest = bind (stop_previous env projectId d) (\<lambda>_.
      bind (addBuildLog env d LogInfo msg_starting_container) (\<lambda>_.
      bind (execPromise env RunContainer
              (''docker run -d --name '' @ (''criacode-project-'' @ to_string projectId @ ''-''
                 @ show_int (clock env (clock_reads s))) @ '' -p '' @ to_string (hostPort_of projectId)
               @ '':'' @ show_int (num_or (p_port project) 3000) @ '' --restart unless-stopped ''
               @ (''criacode-'' @ to_string projectId @ '':latest'')) None None) (\<lambda>stdout.
      bind (addBuildLog env d LogInfo (msg_container_created
              @ (''criacode-project-'' @ to_string projectId @ ''-''
                 @ show_int (clock env (clock_reads s))))) (\<lambda>_.
      ret (trim stdout, ''criacode-project-'' @ to_string projectId @ ''-''
                 @ show_int (clock env (clock_reads s)), hostPort_of projectId)))))"
    obtain r3 s3 where r3: "rest s2 = (r3, s3)" by (cases "rest s2")
    have q: "quiet (\<lambda>_. True) (\<lambda>_. True) rest"
      unfolding rest_def by (rule quiet_after_image_build)
    have "trace s' = trace s3"
      using w Inr r3 run unfolding b_def s2_def rest_def
      by (cases r3)
        (auto simp: createContainer_def bind_def try_catch_def date_now_def addBuildLog_run Let_def
          execPromise_def perform_def throw_def)
    with quietD(1) [OF q r3] show ?thesis by simp
  qed
  from ext_length [OF this] ext_nth_old [OF this, of "length (trace s)"]
    ext_nth_old [OF this, of "Suc (length (trace s))"] t2
  show ?thesis unfolding b_def by (simp add: nth_append)
qed

text \<open>
  C10.  For a project whose framework is none of \<open>react\<close>, \<open>html\<close>, \<open>nextjs\<close>, \<open>node\<close>,
  \<open>createDockerfile\<close> performs exactly one effect, writing the empty string to
  \<open>Dockerfile\<close> in the project directory, and returns normally unless that write itself
  fails: the framework is never a reason to fail.  \<open>createContainer\<close> then goes on to
  \<open>docker build\<close> with that empty recipe, which is where such a project can first fail.
\<close>

theorem createDockerfile_unrecognised:
  assumes fw: "p_framework project \<notin> {Some ''react'', Some ''html'', Some ''nextjs'', Some ''node''}"
  shows "createDockerfile env projectDir project s =
           ((case respond env (length (trace s)) (WriteFile (Join projectDir ''Dockerfile'') '''') of
               Inl m \<Rightarrow> Thrown (Error m) | Inr out \<Rightarrow> Returned ()),
            s\<lparr>trace := trace s @ [WriteFile (Join projectDir ''Dockerfile'') '''']\<rparr>) \<and>
         (\<forall>out r s'.
            respond env (length (trace s)) (WriteFile (Join projectDir ''Dockerfile'') '''') = Inr out \<and>
            createContainer env projectId d project projectDir s = (r, s') \<longrightarrow>
            Suc (length (trace s)) < length (trace s') \<and>
            trace s' ! length (trace s) = WriteFile (Join projectDir ''Dockerfile'') '''' \<and>
            trace s' ! Suc (length (trace s)) =
              Exec ImageBuild (''docker build -t criacode-'' @ to_string projectId @ '':latest .'')
                (Some projectDir) (Some 900000))"
proof (intro conjI allI impI)
  show "createDockerfile env projectDir project s =
           ((case respond env (length (trace s)) (WriteFile (Join projectDir ''Dockerfile'') '''') of
               Inl m \<Rightarrow> Thrown (Error m) | Inr out \<Rightarrow> Returned ()),
            s\<lparr>trace := trace s @ [WriteFile (Join projectDir ''Dockerfile'') '''']\<rparr>)"
    by (rule createDockerfile_other [OF fw])
next
  fix out r s'
  assume a: "respond env (length (trace s)) (WriteFile (Join projectDir ''Dockerfile'') '''') = Inr out \<and>
            createContainer env projectId d project projectDir s = (r, s')"
  let ?s0 = "s\<lparr>build_logs := build_logs s @ [\<lparr>l_deployment_id = d, l_type = LogInfo,
                     l_message = msg_creating_container\<rparr>],
                   clock_reads := Suc (Suc (clock_reads s)),
                   emits := emits s @ [\<lparr>e_room = ''deployment-'' @ show_int d, e_type = LogInfo,
                     e_message = msg_creating_container,
                     e_timestamp = clock env (Suc (clock_reads s))\<rparr>]\<rparr>"
  have w: "createDockerfile env projectDir project ?s0 =
             (Returned (), ?s0\<lparr>trace := trace ?s0 @ [WriteFile (Join projectDir ''Dockerfile'') '''']\<rparr>)"
    using a by (simp add: createDockerfile_other [OF fw])
  have "Suc (length (trace s)) < length (trace s') \<and>
        trace s' ! length (trace s) = WriteFile (Join projectDir ''Dockerfile'') '''' \<and>
        trace s' ! Suc (length (trace s)) =
          Exec ImageBuild (''docker build -t criacode-'' @ to_string projectId @ '':latest .'')
            (Some projectDir) (Some 900000)"
    by (rule createContainer_builds_image [OF w _ a [THEN conjunct2]]) simp
  then show "Suc (length (trace s)) < length (trace s')"
    and "trace s' ! length (trace s) = WriteFile (Join projectDir ''Dockerfile'') ''''"
    and "trace s' ! Suc (length (trace s)) =
          Exec ImageBuild (''docker build -t criacode-'' @ to_string projectId @ '':latest .'')
            (Some projectDir) (Some 900000)"
    by simp_all
qed

theorem createDockerfile_unrecognised_witness:
  "p_framework (project7 ''vue'') \<notin> {Some ''react'', Some ''html'', Some ''nextjs'', Some ''node''} \<and>
   createDockerfile env_ok (Dir ''/var/criacode/deploys/project-7'') (project7 ''vue'')
       ((world7 ''vue'')\<lparr>deployments := old_deployments\<rparr>) =
     (Returned (),
      (world7 ''vue'')\<lparr>deployments := old_deployments,
        trace := [WriteFile (Join (Dir ''/var/criacode/deploys/project-7'') ''Dockerfile'') '''']\<rparr>) \<and>
   trace (snd (createContainer env_ok (Num 7) 3 (project7 ''vue'')
                 (Dir ''/var/criacode/deploys/project-7'')
                 ((world7 ''vue'')\<lparr>deployments := old_deployments\<rparr>))) ! Suc 0 =
     Exec ImageBuild ''docker build -t criacode-7:latest .''
       (Some (Dir ''/var/criacode/deploys/project-7'')) (Some 900000)"
proof -
  let ?dir = "Dir ''/var/criacode/deploys/project-7''"
  let ?w = "(world7 ''vue'')\<lparr>deployments := old_deployments\<rparr>"
  let ?cc = "createContainer env_ok (Num 7) 3 (project7 ''vue'') ?dir ?w"
  have h: "p_framework (project7 ''vue'') \<notin> {Some ''react'', Some ''html'', Some ''nextjs'', Some ''node''}"
    by (simp add: project7_def)
  have t0: "trace ?w = []"
    by (simp add: world7_def)
  have ok: "respond env_ok (length (trace ?w)) (WriteFile (Join ?dir ''Dockerfile'') '''')
              = Inr ''8d2a41c0''"
    by (simp add: env_ok_def)
  have run: "?cc = (fst ?cc, snd ?cc)" by simp
  have seven: "to_string (Num 7) = ''7''"
    by (simp add: show_int_def show_nat.simps digit_char_def)
  note th = createDockerfile_unrecognised [OF h, of env_ok ?dir ?w "Num 7" 3]
  from th [THEN conjunct2, rule_format, of "''8d2a41c0''" "fst ?cc" "snd ?cc"] ok run
  have "trace (snd ?cc) ! Suc (length (trace ?w)) =
     Exec ImageBuild (''docker build -t criacode-'' @ to_string (Num 7) @ '':latest .'')
       (Some ?dir) (Some 900000)"
    by blast
  then have b: "trace (snd ?cc) ! Suc 0 =
     Exec ImageBuild ''docker build -t criacode-7:latest .'' (Some ?dir) (Some 900000)"
    unfolding seven t0 by simp
  from h th [THEN conjunct1] b show ?thesis
    by (simp add: env_ok_def world7_def)
qed

end
